theory Spec2Isabelle
  imports Complex_Main "HOL-Library.Word" "HOL-Library.Multiset"
begin

unbundle bit_operations_syntax

section \<open>The semantic type descriptor (\<open>Nodes::Type\<close>)\<close>

text \<open>
  \<open>enum class Class\<close>. The enumerators are numbered from 0 in declaration order;
  \<open>Class_value\<close> is that underlying value, which \<open>IsTexture\<close> and \<open>IsSampler\<close> compare.
  Write the enumerators qualified (\<open>Class.Int\<close>).
\<close>

datatype Class = Void | Bool | Int | Uint | Float
  | Sampler1D | Sampler2D | Sampler3D
  | Texture1D | Texture2D | Texture3D
  | Struct | String

fun Class_value :: "Class \<Rightarrow> nat" where
  "Class_value Class.Void = 0"
| "Class_value Class.Bool = 1"
| "Class_value Class.Int = 2"
| "Class_value Class.Uint = 3"
| "Class_value Class.Float = 4"
| "Class_value Class.Sampler1D = 5"
| "Class_value Class.Sampler2D = 6"
| "Class_value Class.Sampler3D = 7"
| "Class_value Class.Texture1D = 8"
| "Class_value Class.Texture2D = 9"
| "Class_value Class.Texture3D = 10"
| "Class_value Class.Struct = 11"
| "Class_value Class.String = 12"

text \<open>
  \<open>enum Qualifier\<close>: bit flags, passed to \<open>HasQualifier\<close> and cast there to
  \<open>unsigned int\<close>. \<open>1 << k\<close> is \<open>push_bit k 1\<close>.
\<close>

type_synonym Qualifier = "32 word"

definition Extern :: Qualifier where "Extern = push_bit 0 1"
definition Static :: Qualifier where "Static = push_bit 1 1"
definition Uniform :: Qualifier where "Uniform = push_bit 2 1"
definition Volatile :: Qualifier where "Volatile = push_bit 3 1"
definition Precise :: Qualifier where "Precise = push_bit 4 1"
definition In :: Qualifier where "In = push_bit 5 1"
definition Out :: Qualifier where "Out = push_bit 6 1"
definition InOut :: Qualifier where "InOut = In OR Out"
definition Const :: Qualifier where "Const = push_bit 8 1"
definition Linear :: Qualifier where "Linear = push_bit 10 1"
definition NoPerspective :: Qualifier where "NoPerspective = push_bit 11 1"
definition Centroid :: Qualifier where "Centroid = push_bit 12 1"
definition NoInterpolation :: Qualifier where "NoInterpolation = push_bit 13 1"

text \<open>
  A node lives in the arena at a page (its index in the page list) and a byte offset in
  that page; a pointer is such an address or null (\<open>None\<close>).
\<close>

type_synonym addr = "nat \<times> nat"
type_synonym pointer = "addr option"

text \<open>
  \<open>struct Type\<close>. \<open>Rows\<close> and \<open>Cols\<close> are 4-bit unsigned bit-fields, \<open>Qualifiers\<close> an
  \<open>unsigned int\<close>, \<open>ArrayLength\<close> an \<open>int\<close> (only ever compared with 0 here).
\<close>

record Type =
  BaseClass :: Class
  Qualifiers :: "32 word"
  Rows :: "4 word"
  Cols :: "4 word"
  ArrayLength :: "32 word"
  Definition :: pointer

definition IsArray :: "Type \<Rightarrow> bool" where
  "IsArray t = (ArrayLength t \<noteq> 0)"

definition IsMatrix :: "Type \<Rightarrow> bool" where
  "IsMatrix t = (Rows t \<ge> 1 \<and> Cols t > 1)"

definition IsVector :: "Type \<Rightarrow> bool" where
  "IsVector t = (Rows t > 1 \<and> \<not> IsMatrix t)"

definition IsVoid :: "Type \<Rightarrow> bool" where
  "IsVoid t = (BaseClass t = Class.Void)"

definition IsBoolean :: "Type \<Rightarrow> bool" where
  "IsBoolean t = (BaseClass t = Class.Bool)"

definition IsIntegral :: "Type \<Rightarrow> bool" where
  "IsIntegral t = (BaseClass t = Class.Int \<or> BaseClass t = Class.Uint)"

definition IsFloatingPoint :: "Type \<Rightarrow> bool" where
  "IsFloatingPoint t = (BaseClass t = Class.Float)"

definition IsNumeric :: "Type \<Rightarrow> bool" where
  "IsNumeric t = (IsBoolean t \<or> IsIntegral t \<or> IsFloatingPoint t)"

definition IsScalar :: "Type \<Rightarrow> bool" where
  "IsScalar t = (\<not> IsArray t \<and> \<not> IsMatrix t \<and> \<not> IsVector t \<and> IsNumeric t)"

definition IsTexture :: "Type \<Rightarrow> bool" where
  "IsTexture t = (Class_value (BaseClass t) \<ge> Class_value Class.Texture1D
     \<and> Class_value (BaseClass t) \<le> Class_value Class.Texture2D)"

definition IsSampler :: "Type \<Rightarrow> bool" where
  "IsSampler t = (Class_value (BaseClass t) \<ge> Class_value Class.Sampler1D
     \<and> Class_value (BaseClass t) \<le> Class_value Class.Sampler3D)"

definition IsStruct :: "Type \<Rightarrow> bool" where
  "IsStruct t = (BaseClass t = Class.Struct)"

definition HasQualifier :: "Type \<Rightarrow> Qualifier \<Rightarrow> bool" where
  "HasQualifier t qualifier = ((Qualifiers t AND qualifier) = qualifier)"

text \<open>
  Modelled from the spec: \<open>struct Type\<close> has no \<open>IsString()\<close> member. The outcome
  ``IsString'' of the spec's classification list is read as the base class being
  \<open>Class::String\<close>, the way \<open>IsVoid\<close> and \<open>IsStruct\<close> test theirs.
\<close>

definition IsString :: "Type \<Rightarrow> bool" where
  "IsString t = (BaseClass t = Class.String)"

text \<open>
  The nine classification outcomes of the spec, in its order, and ``exactly one of them
  holds''.
\<close>

definition classification :: "Type \<Rightarrow> bool list" where
  "classification t =
     [IsVoid t, IsScalar t, IsVector t, IsMatrix t, IsArray t,
      IsStruct t, IsTexture t, IsSampler t, IsString t]"

definition exactly_one :: "bool list \<Rightarrow> bool" where
  "exactly_one bs = (length (filter (\<lambda>b. b) bs) = 1)"

text \<open>Sample descriptors used below.\<close>

definition float4x4 :: Type where
  "float4x4 = \<lparr>BaseClass = Class.Float, Qualifiers = 0, Rows = 4, Cols = 4,
     ArrayLength = 0, Definition = None\<rparr>"

definition float1 :: Type where
  "float1 = \<lparr>BaseClass = Class.Float, Qualifiers = 0, Rows = 1, Cols = 1,
     ArrayLength = 0, Definition = None\<rparr>"

definition struct_array :: Type where
  "struct_array = \<lparr>BaseClass = Class.Struct, Qualifiers = 0, Rows = 0, Cols = 0,
     ArrayLength = 2, Definition = None\<rparr>"

definition texture3d :: Type where
  "texture3d = \<lparr>BaseClass = Class.Texture3D, Qualifiers = 0, Rows = 0, Cols = 0,
     ArrayLength = 0, Definition = None\<rparr>"

section \<open>The arena (\<open>nodetree::memory_pool\<close>)\<close>

text \<open>
  What can go wrong when the pool runs: \<open>std::vector::at\<close> throws \<open>std::out_of_range\<close>;
  reading a slot header past the end of a page's buffer, calling a null function
  pointer and writing through a pointer to no object are undefined behaviour, which the
  model reports instead of continuing.
\<close>

datatype error = out_of_range | out_of_bounds | null_call | invalid_pointer

text \<open>
  \<open>struct nodeinfo\<close>, the slot header: \<open>size\<close> (here \<open>size_field\<close>), the type-erased
  destructor \<open>dtor\<close>, and the payload \<open>data\<close>. \<open>add<T>\<close> is a template; the model's pool is
  polymorphic in \<open>'a\<close>, the payload objects, and \<open>'t\<close>, which names the type \<open>T\<close> whose
  destructor the closure stored in \<open>dtor\<close> calls.
\<close>

record ('t, 'a) nodeinfo =
  size_field :: nat
  dtor :: 't
  data :: 'a

text \<open>
  \<open>struct page\<close>: the cursor and the byte buffer \<open>memory\<close>. The buffer is modelled by its
  length \<open>memory_size\<close> (\<open>memory.size()\<close>) and by the slot headers placed in it, keyed by
  their byte offset; the constructor fills the buffer with zero bytes, so an offset
  that holds no slot reads as a header with \<open>size = 0\<close> and a null \<open>dtor\<close>.
  The list of pages \<open>_pages\<close> is the whole state of the pool.
\<close>

record ('t, 'a) page =
  cursor :: nat
  memory_size :: nat
  memory :: "nat \<rightharpoonup> ('t, 'a) nodeinfo"

type_synonym ('t, 'a) memory_pool = "('t, 'a) page list"

definition page_ctor :: "nat \<Rightarrow> ('t, 'a) page" where
  "page_ctor sz = \<lparr>cursor = 0, memory_size = sz, memory = Map.empty\<rparr>"

text \<open>
  \<open>std::find_if\<close> over \<open>_pages\<close> with the predicate of \<open>add\<close>: the index of the first page
  with \<open>cursor + size < memory.size()\<close>, or \<open>None\<close> for \<open>_pages.end()\<close>.
\<close>

fun find_page :: "nat \<Rightarrow> ('t, 'a) page list \<Rightarrow> nat option" where
  "find_page sz [] = None"
| "find_page sz (p # ps) =
     (if cursor p + sz < memory_size p then Some 0 else map_option Suc (find_page sz ps))"

text \<open>
  \<open>add<T>()\<close>. The arguments are what the template parameter fixes at compile time:
  \<open>sz\<close> is the slot's footprint \<open>sizeof(nodeinfo) - sizeof(node) + sizeof(T)\<close>, \<open>T\<close> names
  the destructor, \<open>v\<close> is the value-initialised object \<open>T()\<close>. The result is the pointer
  to the new object (page index and offset of its slot) and the updated pool.
\<close>

definition add ::
  "nat \<Rightarrow> 't \<Rightarrow> 'a \<Rightarrow> ('t, 'a) memory_pool \<Rightarrow> error + (addr \<times> ('t, 'a) memory_pool)" where
  "add sz T v pages =
     (let (pages1, i) =
            (case find_page sz pages of
               None \<Rightarrow> (pages @ [page_ctor (max 4096 sz)], length pages)
             | Some i \<Rightarrow> (pages, i));
          page = pages1 ! i
      in if memory_size page \<le> cursor page then Inl out_of_range
         else
           let node = cursor page;
               page' = page\<lparr>memory := (memory page)(node \<mapsto>
                          \<lparr>size_field = sz, dtor = T, data = v\<rparr>),
                        cursor := cursor page + sz\<rparr>
           in Inr ((i, node), pages1[i := page']))"

text \<open>
  Reading the fields of the header at byte offset \<open>node\<close> of a page. \<open>w\<close> is
  \<open>sizeof(size_t)\<close>, also the size of a function pointer (4 or 8 on the platforms of
  this project): \<open>size\<close> occupies the bytes \<open>node ..< node + w\<close> and \<open>dtor\<close> the bytes
  \<open>node + w ..< node + 2 * w\<close>. A read that leaves the buffer is \<open>out_of_bounds\<close>.
\<close>

definition read_size :: "nat \<Rightarrow> ('t, 'a) page \<Rightarrow> nat \<Rightarrow> error + nat" where
  "read_size w page node =
     (if node + w \<le> memory_size page
      then (case memory page node of None \<Rightarrow> Inr 0 | Some n \<Rightarrow> Inr (size_field n))
      else Inl out_of_bounds)"

definition read_dtor :: "nat \<Rightarrow> ('t, 'a) page \<Rightarrow> nat \<Rightarrow> error + 't option" where
  "read_dtor w page node =
     (if node + 2 * w \<le> memory_size page
      then Inr (map_option dtor (memory page node))
      else Inl out_of_bounds)"

text \<open>Subtraction on \<open>size_t\<close> (\<open>8 * w\<close> bits): it wraps around below zero.\<close>

definition size_t_sub :: "nat \<Rightarrow> nat \<Rightarrow> nat \<Rightarrow> nat" where
  "size_t_sub w a b = (a + (2 ^ (8 * w) - b mod 2 ^ (8 * w))) mod 2 ^ (8 * w)"

text \<open>
  The \<open>do ... while\<close> loop of \<open>clear()\<close> on page number \<open>i\<close>, with \<open>node\<close> the offset of the
  current header. One iteration calls \<open>node->dtor(node->data)\<close>, steps \<open>node\<close> forward by
  \<open>node->size\<close>, and goes on while the size at the new position is positive and the
  cursor, decremented by that size, stays positive. \<open>calls\<close> logs the destructor calls:
  which destructor ran on the object of which slot. A run that ends in undefined
  behaviour returns the error with the calls made until then.
\<close>

type_synonym 't calls = "('t \<times> addr) list"

function clear_loop ::
  "nat \<Rightarrow> nat \<Rightarrow> ('t, 'a) page \<Rightarrow> nat \<Rightarrow> 't calls
     \<Rightarrow> (error \<times> 't calls) + (('t, 'a) page \<times> 't calls)" where
  "clear_loop w i page node calls =
     (case read_dtor w page node of
        Inl e \<Rightarrow> Inl (e, calls)
      | Inr None \<Rightarrow> Inl (null_call, calls)
      | Inr (Some d) \<Rightarrow>
          (let calls' = calls @ [(d, (i, node))] in
           case read_size w page node of
             Inl e \<Rightarrow> Inl (e, calls')
           | Inr sz \<Rightarrow>
               (case read_size w page (node + sz) of
                  Inl e \<Rightarrow> Inl (e, calls')
                | Inr sz' \<Rightarrow>
                    if sz' > 0 then
                      (let page' = page\<lparr>cursor := size_t_sub w (cursor page) sz'\<rparr>
                       in if cursor page' > 0
                          then clear_loop w i page' (node + sz) calls'
                          else Inr (page', calls'))
                    else Inr (page, calls'))))"
  by pat_completeness auto
termination
proof (relation "measure (\<lambda>(w, i, page, node, calls). memory_size page - node)", goal_cases)
  case 1
  show ?case
    by simp
next
  case prems: (2 w i page node calls d' d calls' sz sz' page')
  have "sz \<noteq> 0"
    using prems by (cases "sz = 0") auto
  moreover have "node + sz \<le> memory_size page"
    using prems by (auto simp: read_size_def split: if_splits)
  ultimately show ?case
    using prems by simp
qed

text \<open>\<open>clear()\<close>: the loop over \<open>_pages\<close>, each page starting at its first header.\<close>

fun clear_pages ::
  "nat \<Rightarrow> nat \<Rightarrow> ('t, 'a) page list \<Rightarrow> 't calls
     \<Rightarrow> (error \<times> 't calls) + (('t, 'a) page list \<times> 't calls)" where
  "clear_pages w i [] calls = Inr ([], calls)"
| "clear_pages w i (page # pages) calls =
     (case clear_loop w i page 0 calls of
        Inl e \<Rightarrow> Inl e
      | Inr (page', calls') \<Rightarrow>
          (case clear_pages w (Suc i) pages calls' of
             Inl e \<Rightarrow> Inl e
           | Inr (pages', calls'') \<Rightarrow> Inr (page' # pages', calls'')))"

definition clear ::
  "nat \<Rightarrow> ('t, 'a) memory_pool
     \<Rightarrow> (error \<times> 't calls) + (('t, 'a) memory_pool \<times> 't calls)" where
  "clear w pages = clear_pages w 0 pages []"

text \<open>
  A run of the pool: the allocations \<open>add<T>()\<close> of a list of requests, each a
  footprint, a type and its \<open>T()\<close>, made in order. It returns the allocated objects
  (the type with the pointer \<open>add\<close> returned) and the pool.
\<close>

fun add_all ::
  "(nat \<times> 't \<times> 'a) list \<Rightarrow> ('t, 'a) memory_pool
     \<Rightarrow> error + ('t calls \<times> ('t, 'a) memory_pool)" where
  "add_all [] pages = Inr ([], pages)"
| "add_all ((sz, T, v) # reqs) pages =
     (case add sz T v pages of
        Inl e \<Rightarrow> Inl e
      | Inr (node, pages') \<Rightarrow>
          (case add_all reqs pages' of
             Inl e \<Rightarrow> Inl e
           | Inr (nodes, pages'') \<Rightarrow> Inr ((T, node) # nodes, pages'')))"

text \<open>
  Sample pages: one holding a single slot of 4000 bytes, with 96 bytes left, and the
  page \<open>add\<close> makes on an empty pool for a footprint \<open>sz\<close> of 4096 bytes or more, which
  the slot fills to the last byte.
\<close>

definition full_page :: "(nat, unit) page" where
  "full_page = \<lparr>cursor = 4000, memory_size = 4096,
      memory = [0 \<mapsto> \<lparr>size_field = 4000, dtor = 1, data = ()\<rparr>]\<rparr>"

definition exact_page :: "nat \<Rightarrow> 't \<Rightarrow> 'a \<Rightarrow> ('t, 'a) page" where
  "exact_page sz T v = \<lparr>cursor = sz, memory_size = sz,
      memory = [0 \<mapsto> \<lparr>size_field = sz, dtor = T, data = v\<rparr>]\<rparr>"

subsection \<open>The layout of a page\<close>

text \<open>
  For the proofs about \<open>clear()\<close>: the slots of a page in offset order, each with its
  size and type. \<open>laid_out w page node slots\<close> says that the headers of \<open>slots\<close> stand
  one after the other from offset \<open>node\<close> on, each with a positive size and inside the
  buffer, and that a zero \<open>size\<close> field inside the buffer follows the last.
  \<open>slot_calls\<close> lists the destructor calls due for them.
\<close>

type_synonym 't layout = "(nat \<times> 't) list"

fun laid_out :: "nat \<Rightarrow> ('t, 'a) page \<Rightarrow> nat \<Rightarrow> 't layout \<Rightarrow> bool" where
  "laid_out w page node [] = (memory page node = None \<and> node + w \<le> memory_size page)"
| "laid_out w page node ((sz, T) # slots) =
     (case memory page node of
        None \<Rightarrow> False
      | Some n \<Rightarrow> size_field n = sz \<and> dtor n = T \<and> 0 < sz
          \<and> node + 2 * w \<le> memory_size page \<and> laid_out w page (node + sz) slots)"

fun slot_calls :: "nat \<Rightarrow> nat \<Rightarrow> 't layout \<Rightarrow> 't calls" where
  "slot_calls i node [] = []"
| "slot_calls i node ((sz, T) # slots) = (T, (i, node)) # slot_calls i (node + sz) slots"

fun pool_calls :: "nat \<Rightarrow> 't layout list \<Rightarrow> 't calls" where
  "pool_calls i [] = []"
| "pool_calls i (slots # layouts) = slot_calls i 0 slots @ pool_calls (Suc i) layouts"

text \<open>
  The invariant of a page that \<open>add\<close> has filled with slots smaller than 4096 bytes
  whose sizes are multiples of \<open>w\<close>: the page is 4096 bytes long, its slots are laid out
  from offset 0 up to the cursor, and nothing lies at or behind the cursor.
\<close>

definition page_inv :: "nat \<Rightarrow> ('t, 'a) page \<Rightarrow> 't layout \<Rightarrow> bool" where
  "page_inv w page slots =
     (slots \<noteq> [] \<and> laid_out w page 0 slots
      \<and> cursor page = sum_list (map fst slots)
      \<and> memory_size page = 4096
      \<and> w dvd cursor page
      \<and> (\<forall>node. cursor page \<le> node \<longrightarrow> memory page node = None))"

definition pool_inv :: "nat \<Rightarrow> ('t, 'a) memory_pool \<Rightarrow> 't layout list \<Rightarrow> bool" where
  "pool_inv w pages layouts = list_all2 (page_inv w) pages layouts"

section \<open>The node taxonomy\<close>

text \<open>\<open>enum class nodeid\<close>, the discriminant tag. Write the enumerators qualified.\<close>

datatype nodeid = unknown
  | LValue | Literal | Unary | Binary | Intrinsic | Conditional | Assignment | Sequence
  | Call | Constructor | Swizzle | FieldSelection | InitializerList
  | Compound | DeclaratorList | ExpressionStatement | If | Switch | Case | For | While
  | Return | Jump
  | Annotation | Variable | Struct | Function | Pass | Technique

text \<open>
  A member that a constructor may leave uninitialised holds an indeterminate value
  until it is assigned. The members of the node structs that are raw pointers or
  \<open>Type\<close> values are of this kind; \<open>val None\<close> is a null pointer.
\<close>

datatype 'a member = indeterminate | val 'a

text \<open>
  The operator enumerations. \<open>Op::None\<close> is written \<open>None_op\<close>. \<open>Intrinsic::Op\<close>, the
  catalogue of built-in functions (\<open>None\<close>, \<open>Abs\<close>, \<open>Acos\<close>, ... \<open>Trunc\<close>, numbered from
  0), is kept as the enumerator's underlying value; only \<open>None\<close> occurs in this file.
\<close>

datatype Unary_Op = None_op | Negate | BitwiseNot | LogicalNot | Increase | Decrease
  | PostIncrease | PostDecrease | Cast

datatype Binary_Op = None_op | Add | Subtract | Multiply | Divide | Modulo | Less | Greater
  | LessOrEqual | GreaterOrEqual | Equal | NotEqual | LeftShift | RightShift | BitwiseOr
  | BitwiseXor | BitwiseAnd | LogicalOr | LogicalAnd | ElementExtract

type_synonym Intrinsic_Op = nat

definition Intrinsic_None :: Intrinsic_Op where
  "Intrinsic_None = 0"

datatype Assignment_Op = None_op | Add | Subtract | Multiply | Divide | Modulo | BitwiseAnd
  | BitwiseOr | BitwiseXor | LeftShift | RightShift

datatype Jump_Mode = Break | Continue

subsection \<open>\<open>Variable::Properties\<close> and \<open>Pass::States\<close>\<close>

text \<open>
  The unnamed enumerations of the two structs, as \<open>unsigned int\<close> constants. An
  enumerator without an initialiser is its predecessor plus one. Both structs declare
  \<open>NONE\<close>; the enumerators \<open>MIN\<close> and \<open>MAX\<close> of \<open>States\<close> are written \<open>MIN_op\<close> and
  \<open>MAX_op\<close>.
\<close>

definition Properties_NONE :: "32 word" where "Properties_NONE = 0"
definition R8 :: "32 word" where "R8 = 50"
definition R16F :: "32 word" where "R16F = 111"
definition R32F :: "32 word" where "R32F = 114"
definition RG8 :: "32 word" where "RG8 = 51"
definition RG16 :: "32 word" where "RG16 = 34"
definition RG16F :: "32 word" where "RG16F = 112"
definition RG32F :: "32 word" where "RG32F = 115"
definition RGBA8 :: "32 word" where "RGBA8 = 32"
definition RGBA16 :: "32 word" where "RGBA16 = 36"
definition RGBA16F :: "32 word" where "RGBA16F = 113"
definition RGBA32F :: "32 word" where "RGBA32F = 116"
definition DXT1 :: "32 word" where "DXT1 = 827611204"
definition DXT3 :: "32 word" where "DXT3 = 861165636"
definition DXT5 :: "32 word" where "DXT5 = 894720068"
definition LATC1 :: "32 word" where "LATC1 = 826889281"
definition LATC2 :: "32 word" where "LATC2 = 843666497"
definition POINT :: "32 word" where "POINT = 1"
definition LINEAR :: "32 word" where "LINEAR = POINT + 1"
definition ANISOTROPIC :: "32 word" where "ANISOTROPIC = LINEAR + 1"
definition WRAP :: "32 word" where "WRAP = 1"
definition REPEAT :: "32 word" where "REPEAT = 1"
definition MIRROR :: "32 word" where "MIRROR = REPEAT + 1"
definition CLAMP :: "32 word" where "CLAMP = MIRROR + 1"
definition BORDER :: "32 word" where "BORDER = CLAMP + 1"

definition States_NONE :: "32 word" where "States_NONE = 0"
definition ZERO :: "32 word" where "ZERO = 0"
definition ONE :: "32 word" where "ONE = 1"
definition SRCCOLOR :: "32 word" where "SRCCOLOR = ONE + 1"
definition INVSRCCOLOR :: "32 word" where "INVSRCCOLOR = SRCCOLOR + 1"
definition SRCALPHA :: "32 word" where "SRCALPHA = INVSRCCOLOR + 1"
definition INVSRCALPHA :: "32 word" where "INVSRCALPHA = SRCALPHA + 1"
definition DESTALPHA :: "32 word" where "DESTALPHA = INVSRCALPHA + 1"
definition INVDESTALPHA :: "32 word" where "INVDESTALPHA = DESTALPHA + 1"
definition DESTCOLOR :: "32 word" where "DESTCOLOR = INVDESTALPHA + 1"
definition INVDESTCOLOR :: "32 word" where "INVDESTCOLOR = DESTCOLOR + 1"
definition ADD :: "32 word" where "ADD = 1"
definition SUBTRACT :: "32 word" where "SUBTRACT = ADD + 1"
definition REVSUBTRACT :: "32 word" where "REVSUBTRACT = SUBTRACT + 1"
definition MIN_op :: "32 word" where "MIN_op = REVSUBTRACT + 1"
definition MAX_op :: "32 word" where "MAX_op = MIN_op + 1"
definition KEEP :: "32 word" where "KEEP = 1"
definition REPLACE :: "32 word" where "REPLACE = 3"
definition INVERT :: "32 word" where "INVERT = REPLACE + 1"
definition INCRSAT :: "32 word" where "INCRSAT = INVERT + 1"
definition DECRSAT :: "32 word" where "DECRSAT = INCRSAT + 1"
definition INCR :: "32 word" where "INCR = DECRSAT + 1"
definition DECR :: "32 word" where "DECR = INCR + 1"
definition NEVER :: "32 word" where "NEVER = 1"
definition LESS :: "32 word" where "LESS = NEVER + 1"
definition EQUAL :: "32 word" where "EQUAL = LESS + 1"
definition LESSEQUAL :: "32 word" where "LESSEQUAL = EQUAL + 1"
definition GREATER :: "32 word" where "GREATER = LESSEQUAL + 1"
definition NOTEQUAL :: "32 word" where "NOTEQUAL = GREATER + 1"
definition GREATEREQUAL :: "32 word" where "GREATEREQUAL = NOTEQUAL + 1"
definition ALWAYS :: "32 word" where "ALWAYS = GREATEREQUAL + 1"

text \<open>
  \<open>FLT_MAX\<close> of the C library header \<open>cfloat\<close>, the largest finite \<open>float\<close>:
  \<open>(2 - 2 ^ -23) * 2 ^ 127\<close>. The \<open>float\<close> members are modelled as reals.
\<close>

definition FLT_MAX :: real where
  "FLT_MAX = 340282346638528859811704183484516925440"

record Properties =
  Texture :: pointer
  Width :: "32 word"
  Height :: "32 word"
  Depth :: "32 word"
  MipLevels :: "32 word"
  Format :: "32 word"
  SRGBTexture :: bool
  AddressU :: "32 word"
  AddressV :: "32 word"
  AddressW :: "32 word"
  MinFilter :: "32 word"
  MagFilter :: "32 word"
  MipFilter :: "32 word"
  MaxAnisotropy :: "32 word"
  MinLOD :: real
  MaxLOD :: real
  MipLODBias :: real

definition Properties_ctor :: Properties where
  "Properties_ctor = \<lparr>Texture = None, Width = 1, Height = 1, Depth = 1, MipLevels = 1,
     Format = RGBA8, SRGBTexture = False, AddressU = CLAMP, AddressV = CLAMP,
     AddressW = CLAMP, MinFilter = LINEAR, MagFilter = LINEAR, MipFilter = LINEAR,
     MaxAnisotropy = 1, MinLOD = 0, MaxLOD = FLT_MAX, MipLODBias = 0\<rparr>"

record States =
  RenderTargets :: "pointer list"
  VertexShader :: pointer
  PixelShader :: pointer
  SRGBWriteEnable :: bool
  BlendEnable :: bool
  DepthEnable :: bool
  StencilEnable :: bool
  RenderTargetWriteMask :: "8 word"
  DepthWriteMask :: "8 word"
  StencilReadMask :: "8 word"
  StencilWriteMask :: "8 word"
  BlendOp :: "32 word"
  BlendOpAlpha :: "32 word"
  SrcBlend :: "32 word"
  DestBlend :: "32 word"
  DepthFunc :: "32 word"
  StencilFunc :: "32 word"
  StencilRef :: "32 word"
  StencilOpPass :: "32 word"
  StencilOpFail :: "32 word"
  StencilOpDepthFail :: "32 word"

definition States_ctor :: States where
  "States_ctor = \<lparr>RenderTargets = replicate 8 None, VertexShader = None,
     PixelShader = None, SRGBWriteEnable = False, BlendEnable = False,
     DepthEnable = False, StencilEnable = False, RenderTargetWriteMask = 0xF,
     DepthWriteMask = 1, StencilReadMask = 0xFF, StencilWriteMask = 0xFF,
     BlendOp = ADD, BlendOpAlpha = ADD, SrcBlend = ONE, DestBlend = ZERO,
     DepthFunc = LESS, StencilFunc = ALWAYS, StencilRef = 0, StencilOpPass = KEEP,
     StencilOpFail = KEEP, StencilOpDepthFail = KEEP\<rparr>"

subsection \<open>The node structs\<close>

text \<open>
  \<open>class node\<close> and the three abstract families. The type \<open>location\<close> comes from
  \<open>Lexer.hpp\<close>, which is not part of these sources: it is the type parameter \<open>'loc\<close>,
  and \<open>loc0\<close> below stands for the value-initialised \<open>location()\<close>. The member \<open>id\<close> is
  \<open>node_id\<close> here. A derived struct is a record extension of its base.
\<close>

record 'loc node =
  node_id :: nodeid
  location :: 'loc

record 'loc Expression = "'loc node" +
  Type :: "Type member"

record 'loc Statement = "'loc node" +
  Attributes :: "string list"

record 'loc Declaration = "'loc node" +
  Name :: string
  Namespace :: string

definition node_ctor :: "'loc \<Rightarrow> nodeid \<Rightarrow> 'loc node" where
  "node_ctor loc0 tag = \<lparr>node_id = tag, location = loc0\<rparr>"

definition Expression_ctor :: "'loc \<Rightarrow> nodeid \<Rightarrow> 'loc Expression" where
  "Expression_ctor loc0 tag =
     node.extend (node_ctor loc0 tag) (Expression.fields indeterminate)"

definition Statement_ctor :: "'loc \<Rightarrow> nodeid \<Rightarrow> 'loc Statement" where
  "Statement_ctor loc0 tag = node.extend (node_ctor loc0 tag) (Statement.fields [])"

definition Declaration_ctor :: "'loc \<Rightarrow> nodeid \<Rightarrow> 'loc Declaration" where
  "Declaration_ctor loc0 tag =
     node.extend (node_ctor loc0 tag) (Declaration.fields '''' '''')"

text \<open>
  The concrete structs, each with its default constructor: the base constructor called
  with the struct's tag, then the members in declaration order. A member the
  constructor's initialiser list (or body) does not set is \<open>indeterminate\<close>; strings and
  vectors are default-constructed empty; \<open>Operands()\<close> and \<open>Arguments()\<close> zero their
  arrays; \<open>Literal\<close>'s union of sixteen 32-bit cells is zeroed by \<open>memset\<close>; the four
  \<open>signed char\<close> of \<open>Swizzle::Mask\<close> are set to \<open>-1\<close>.
\<close>

record 'loc LValue = "'loc Expression" +
  Reference :: "pointer member"

definition LValue_ctor :: "'loc \<Rightarrow> 'loc LValue" where
  "LValue_ctor loc0 =
     Expression.extend (Expression_ctor loc0 nodeid.LValue) (LValue.fields (val None))"

record 'loc Literal = "'loc Expression" +
  Value :: "32 word list"
  StringValue :: string

definition Literal_ctor :: "'loc \<Rightarrow> 'loc Literal" where
  "Literal_ctor loc0 =
     Expression.extend (Expression_ctor loc0 nodeid.Literal)
       (Literal.fields (replicate 16 0) '''')"

record 'loc Unary = "'loc Expression" +
  Operator :: Unary_Op
  Operand :: "pointer member"

definition Unary_ctor :: "'loc \<Rightarrow> 'loc Unary" where
  "Unary_ctor loc0 =
     Expression.extend (Expression_ctor loc0 nodeid.Unary)
       (Unary.fields Unary_Op.None_op (val None))"

record 'loc Binary = "'loc Expression" +
  Operator :: Binary_Op
  Operands :: "pointer member list"

definition Binary_ctor :: "'loc \<Rightarrow> 'loc Binary" where
  "Binary_ctor loc0 =
     Expression.extend (Expression_ctor loc0 nodeid.Binary)
       (Binary.fields Binary_Op.None_op (replicate 2 (val None)))"

record 'loc Intrinsic = "'loc Expression" +
  Operator :: Intrinsic_Op
  Arguments :: "pointer member list"

definition Intrinsic_ctor :: "'loc \<Rightarrow> 'loc Intrinsic" where
  "Intrinsic_ctor loc0 =
     Expression.extend (Expression_ctor loc0 nodeid.Intrinsic)
       (Intrinsic.fields Intrinsic_None (replicate 4 (val None)))"

record 'loc Conditional = "'loc Expression" +
  Condition :: "pointer member"
  ExpressionOnTrue :: "pointer member"
  ExpressionOnFalse :: "pointer member"

definition Conditional_ctor :: "'loc \<Rightarrow> 'loc Conditional" where
  "Conditional_ctor loc0 =
     Expression.extend (Expression_ctor loc0 nodeid.Conditional)
       (Conditional.fields (val None) (val None) (val None))"

record 'loc Assignment = "'loc Expression" +
  Operator :: Assignment_Op
  Left :: "pointer member"
  Right :: "pointer member"

definition Assignment_ctor :: "'loc \<Rightarrow> 'loc Assignment" where
  "Assignment_ctor loc0 =
     Expression.extend (Expression_ctor loc0 nodeid.Assignment)
       (Assignment.fields Assignment_Op.None_op indeterminate indeterminate)"

record 'loc Sequence = "'loc Expression" +
  Expressions :: "pointer list"

definition Sequence_ctor :: "'loc \<Rightarrow> 'loc Sequence" where
  "Sequence_ctor loc0 =
     Expression.extend (Expression_ctor loc0 nodeid.Sequence) (Sequence.fields [])"

record 'loc Call = "'loc Expression" +
  CalleeName :: string
  Callee :: "pointer member"
  Arguments :: "pointer list"

definition Call_ctor :: "'loc \<Rightarrow> 'loc Call" where
  "Call_ctor loc0 =
     Expression.extend (Expression_ctor loc0 nodeid.Call) (Call.fields '''' (val None) [])"

record 'loc Constructor = "'loc Expression" +
  Arguments :: "pointer list"

definition Constructor_ctor :: "'loc \<Rightarrow> 'loc Constructor" where
  "Constructor_ctor loc0 =
     Expression.extend (Expression_ctor loc0 nodeid.Constructor) (Constructor.fields [])"

record 'loc Swizzle = "'loc Expression" +
  Operand :: "pointer member"
  Mask :: "8 word list"

definition Swizzle_ctor :: "'loc \<Rightarrow> 'loc Swizzle" where
  "Swizzle_ctor loc0 =
     Expression.extend (Expression_ctor loc0 nodeid.Swizzle)
       (Swizzle.fields (val None) (replicate 4 (- 1)))"

record 'loc FieldSelection = "'loc Expression" +
  Operand :: "pointer member"
  Field :: "pointer member"

definition FieldSelection_ctor :: "'loc \<Rightarrow> 'loc FieldSelection" where
  "FieldSelection_ctor loc0 =
     Expression.extend (Expression_ctor loc0 nodeid.FieldSelection)
       (FieldSelection.fields (val None) (val None))"

record 'loc InitializerList = "'loc Expression" +
  Values :: "pointer list"

definition InitializerList_ctor :: "'loc \<Rightarrow> 'loc InitializerList" where
  "InitializerList_ctor loc0 =
     Expression.extend (Expression_ctor loc0 nodeid.InitializerList)
       (InitializerList.fields [])"

record 'loc Compound = "'loc Statement" +
  Statements :: "pointer list"

definition Compound_ctor :: "'loc \<Rightarrow> 'loc Compound" where
  "Compound_ctor loc0 =
     Statement.extend (Statement_ctor loc0 nodeid.Compound) (Compound.fields [])"

record 'loc DeclaratorList = "'loc Statement" +
  Declarators :: "pointer list"

definition DeclaratorList_ctor :: "'loc \<Rightarrow> 'loc DeclaratorList" where
  "DeclaratorList_ctor loc0 =
     Statement.extend (Statement_ctor loc0 nodeid.DeclaratorList)
       (DeclaratorList.fields [])"

record 'loc ExpressionStatement = "'loc Statement" +
  Expression :: "pointer member"

definition ExpressionStatement_ctor :: "'loc \<Rightarrow> 'loc ExpressionStatement" where
  "ExpressionStatement_ctor loc0 =
     Statement.extend (Statement_ctor loc0 nodeid.ExpressionStatement)
       (ExpressionStatement.fields indeterminate)"

record 'loc If = "'loc Statement" +
  Condition :: "pointer member"
  StatementOnTrue :: "pointer member"
  StatementOnFalse :: "pointer member"

definition If_ctor :: "'loc \<Rightarrow> 'loc If" where
  "If_ctor loc0 =
     Statement.extend (Statement_ctor loc0 nodeid.If)
       (If.fields indeterminate indeterminate indeterminate)"

record 'loc Case = "'loc Statement" +
  Labels :: "pointer list"
  Statements :: "pointer member"

definition Case_ctor :: "'loc \<Rightarrow> 'loc Case" where
  "Case_ctor loc0 =
     Statement.extend (Statement_ctor loc0 nodeid.Case) (Case.fields [] indeterminate)"

record 'loc Switch = "'loc Statement" +
  Test :: "pointer member"
  Cases :: "pointer list"

definition Switch_ctor :: "'loc \<Rightarrow> 'loc Switch" where
  "Switch_ctor loc0 =
     Statement.extend (Statement_ctor loc0 nodeid.Switch) (Switch.fields indeterminate [])"

record 'loc For = "'loc Statement" +
  Initialization :: "pointer member"
  Condition :: "pointer member"
  Increment :: "pointer member"
  Statements :: "pointer member"

definition For_ctor :: "'loc \<Rightarrow> 'loc For" where
  "For_ctor loc0 =
     Statement.extend (Statement_ctor loc0 nodeid.For)
       (For.fields indeterminate indeterminate indeterminate indeterminate)"

record 'loc While = "'loc Statement" +
  DoWhile :: bool
  Condition :: "pointer member"
  Statements :: "pointer member"

definition While_ctor :: "'loc \<Rightarrow> 'loc While" where
  "While_ctor loc0 =
     Statement.extend (Statement_ctor loc0 nodeid.While)
       (While.fields False indeterminate indeterminate)"

record 'loc Return = "'loc Statement" +
  Discard :: bool
  Value :: "pointer member"

definition Return_ctor :: "'loc \<Rightarrow> 'loc Return" where
  "Return_ctor loc0 =
     Statement.extend (Statement_ctor loc0 nodeid.Return) (Return.fields False (val None))"

record 'loc Jump = "'loc Statement" +
  Mode :: Jump_Mode

definition Jump_ctor :: "'loc \<Rightarrow> 'loc Jump" where
  "Jump_ctor loc0 =
     Statement.extend (Statement_ctor loc0 nodeid.Jump) (Jump.fields Break)"

record 'loc Annotation = "'loc node" +
  Name :: string
  Value :: "pointer member"

definition Annotation_ctor :: "'loc \<Rightarrow> 'loc Annotation" where
  "Annotation_ctor loc0 =
     node.extend (node_ctor loc0 nodeid.Annotation) (Annotation.fields '''' indeterminate)"

record 'loc Variable = "'loc Declaration" +
  Type :: "Type member"
  Annotations :: "'loc Annotation list"
  Semantic :: string
  Properties :: Properties
  Initializer :: "pointer member"

definition Variable_ctor :: "'loc \<Rightarrow> 'loc Variable" where
  "Variable_ctor loc0 =
     Declaration.extend (Declaration_ctor loc0 nodeid.Variable)
       (Variable.fields indeterminate [] '''' Properties_ctor (val None))"

record 'loc Struct = "'loc Declaration" +
  Fields :: "pointer list"

definition Struct_ctor :: "'loc \<Rightarrow> 'loc Struct" where
  "Struct_ctor loc0 =
     Declaration.extend (Declaration_ctor loc0 nodeid.Struct) (Struct.fields [])"

record 'loc Function = "'loc Declaration" +
  ReturnType :: "Type member"
  Parameters :: "pointer list"
  ReturnSemantic :: string
  Definition :: "pointer member"

definition Function_ctor :: "'loc \<Rightarrow> 'loc Function" where
  "Function_ctor loc0 =
     Declaration.extend (Declaration_ctor loc0 nodeid.Function)
       (Function.fields indeterminate [] '''' (val None))"

record 'loc Pass = "'loc Declaration" +
  Annotations :: "'loc Annotation list"
  States :: States

definition Pass_ctor :: "'loc \<Rightarrow> 'loc Pass" where
  "Pass_ctor loc0 =
     Declaration.extend (Declaration_ctor loc0 nodeid.Pass) (Pass.fields [] States_ctor)"

record 'loc Technique = "'loc Declaration" +
  Annotations :: "'loc Annotation list"
  Passes :: "pointer list"

definition Technique_ctor :: "'loc \<Rightarrow> 'loc Technique" where
  "Technique_ctor loc0 =
     Declaration.extend (Declaration_ctor loc0 nodeid.Technique) (Technique.fields [] [])"

subsection \<open>Objects in the arena\<close>

text \<open>
  \<open>shape\<close> names the concrete structs: the values of the template parameter \<open>T\<close> of
  \<open>make_node<T>\<close>. An \<open>object\<close> is a value of one of them, as it lies in a slot of the
  arena. Both reuse the struct names for their constructors: write them qualified.
\<close>

datatype shape = LValue | Literal | Unary | Binary | Intrinsic | Conditional
  | Assignment | Sequence | Call | Constructor | Swizzle | FieldSelection
  | InitializerList | Compound | DeclaratorList | ExpressionStatement | If | Case
  | Switch | For | While | Return | Jump | Annotation | Variable | Struct | Function
  | Pass | Technique

datatype 'loc object =
    LValue "'loc LValue"
  | Literal "'loc Literal"
  | Unary "'loc Unary"
  | Binary "'loc Binary"
  | Intrinsic "'loc Intrinsic"
  | Conditional "'loc Conditional"
  | Assignment "'loc Assignment"
  | Sequence "'loc Sequence"
  | Call "'loc Call"
  | Constructor "'loc Constructor"
  | Swizzle "'loc Swizzle"
  | FieldSelection "'loc FieldSelection"
  | InitializerList "'loc InitializerList"
  | Compound "'loc Compound"
  | DeclaratorList "'loc DeclaratorList"
  | ExpressionStatement "'loc ExpressionStatement"
  | If "'loc If"
  | Case "'loc Case"
  | Switch "'loc Switch"
  | For "'loc For"
  | While "'loc While"
  | Return "'loc Return"
  | Jump "'loc Jump"
  | Annotation "'loc Annotation"
  | Variable "'loc Variable"
  | Struct "'loc Struct"
  | Function "'loc Function"
  | Pass "'loc Pass"
  | Technique "'loc Technique"

text \<open>\<open>T()\<close>: the value-initialised object of shape \<open>T\<close>.\<close>

fun new_object :: "'loc \<Rightarrow> shape \<Rightarrow> 'loc object" where
  "new_object loc0 shape.LValue = object.LValue (LValue_ctor loc0)"
| "new_object loc0 shape.Literal = object.Literal (Literal_ctor loc0)"
| "new_object loc0 shape.Unary = object.Unary (Unary_ctor loc0)"
| "new_object loc0 shape.Binary = object.Binary (Binary_ctor loc0)"
| "new_object loc0 shape.Intrinsic = object.Intrinsic (Intrinsic_ctor loc0)"
| "new_object loc0 shape.Conditional = object.Conditional (Conditional_ctor loc0)"
| "new_object loc0 shape.Assignment = object.Assignment (Assignment_ctor loc0)"
| "new_object loc0 shape.Sequence = object.Sequence (Sequence_ctor loc0)"
| "new_object loc0 shape.Call = object.Call (Call_ctor loc0)"
| "new_object loc0 shape.Constructor = object.Constructor (Constructor_ctor loc0)"
| "new_object loc0 shape.Swizzle = object.Swizzle (Swizzle_ctor loc0)"
| "new_object loc0 shape.FieldSelection = object.FieldSelection (FieldSelection_ctor loc0)"
| "new_object loc0 shape.InitializerList =
     object.InitializerList (InitializerList_ctor loc0)"
| "new_object loc0 shape.Compound = object.Compound (Compound_ctor loc0)"
| "new_object loc0 shape.DeclaratorList = object.DeclaratorList (DeclaratorList_ctor loc0)"
| "new_object loc0 shape.ExpressionStatement =
     object.ExpressionStatement (ExpressionStatement_ctor loc0)"
| "new_object loc0 shape.If = object.If (If_ctor loc0)"
| "new_object loc0 shape.Case = object.Case (Case_ctor loc0)"
| "new_object loc0 shape.Switch = object.Switch (Switch_ctor loc0)"
| "new_object loc0 shape.For = object.For (For_ctor loc0)"
| "new_object loc0 shape.While = object.While (While_ctor loc0)"
| "new_object loc0 shape.Return = object.Return (Return_ctor loc0)"
| "new_object loc0 shape.Jump = object.Jump (Jump_ctor loc0)"
| "new_object loc0 shape.Annotation = object.Annotation (Annotation_ctor loc0)"
| "new_object loc0 shape.Variable = object.Variable (Variable_ctor loc0)"
| "new_object loc0 shape.Struct = object.Struct (Struct_ctor loc0)"
| "new_object loc0 shape.Function = object.Function (Function_ctor loc0)"
| "new_object loc0 shape.Pass = object.Pass (Pass_ctor loc0)"
| "new_object loc0 shape.Technique = object.Technique (Technique_ctor loc0)"

text \<open>
  The tag that belongs to a shape: the enumerator of \<open>nodeid\<close> with the struct's name.
\<close>

fun shape_tag :: "shape \<Rightarrow> nodeid" where
  "shape_tag shape.LValue = nodeid.LValue"
| "shape_tag shape.Literal = nodeid.Literal"
| "shape_tag shape.Unary = nodeid.Unary"
| "shape_tag shape.Binary = nodeid.Binary"
| "shape_tag shape.Intrinsic = nodeid.Intrinsic"
| "shape_tag shape.Conditional = nodeid.Conditional"
| "shape_tag shape.Assignment = nodeid.Assignment"
| "shape_tag shape.Sequence = nodeid.Sequence"
| "shape_tag shape.Call = nodeid.Call"
| "shape_tag shape.Constructor = nodeid.Constructor"
| "shape_tag shape.Swizzle = nodeid.Swizzle"
| "shape_tag shape.FieldSelection = nodeid.FieldSelection"
| "shape_tag shape.InitializerList = nodeid.InitializerList"
| "shape_tag shape.Compound = nodeid.Compound"
| "shape_tag shape.DeclaratorList = nodeid.DeclaratorList"
| "shape_tag shape.ExpressionStatement = nodeid.ExpressionStatement"
| "shape_tag shape.If = nodeid.If"
| "shape_tag shape.Case = nodeid.Case"
| "shape_tag shape.Switch = nodeid.Switch"
| "shape_tag shape.For = nodeid.For"
| "shape_tag shape.While = nodeid.While"
| "shape_tag shape.Return = nodeid.Return"
| "shape_tag shape.Jump = nodeid.Jump"
| "shape_tag shape.Annotation = nodeid.Annotation"
| "shape_tag shape.Variable = nodeid.Variable"
| "shape_tag shape.Struct = nodeid.Struct"
| "shape_tag shape.Function = nodeid.Function"
| "shape_tag shape.Pass = nodeid.Pass"
| "shape_tag shape.Technique = nodeid.Technique"

text \<open>
  Access to an object through a \<open>node *\<close>: the header members \<open>id\<close> and \<open>location\<close>, and
  the assignment to \<open>location\<close>.
\<close>

fun object_id :: "'loc object \<Rightarrow> nodeid" where
  "object_id (object.LValue x) = node_id x"
| "object_id (object.Literal x) = node_id x"
| "object_id (object.Unary x) = node_id x"
| "object_id (object.Binary x) = node_id x"
| "object_id (object.Intrinsic x) = node_id x"
| "object_id (object.Conditional x) = node_id x"
| "object_id (object.Assignment x) = node_id x"
| "object_id (object.Sequence x) = node_id x"
| "object_id (object.Call x) = node_id x"
| "object_id (object.Constructor x) = node_id x"
| "object_id (object.Swizzle x) = node_id x"
| "object_id (object.FieldSelection x) = node_id x"
| "object_id (object.InitializerList x) = node_id x"
| "object_id (object.Compound x) = node_id x"
| "object_id (object.DeclaratorList x) = node_id x"
| "object_id (object.ExpressionStatement x) = node_id x"
| "object_id (object.If x) = node_id x"
| "object_id (object.Case x) = node_id x"
| "object_id (object.Switch x) = node_id x"
| "object_id (object.For x) = node_id x"
| "object_id (object.While x) = node_id x"
| "object_id (object.Return x) = node_id x"
| "object_id (object.Jump x) = node_id x"
| "object_id (object.Annotation x) = node_id x"
| "object_id (object.Variable x) = node_id x"
| "object_id (object.Struct x) = node_id x"
| "object_id (object.Function x) = node_id x"
| "object_id (object.Pass x) = node_id x"
| "object_id (object.Technique x) = node_id x"

fun object_location :: "'loc object \<Rightarrow> 'loc" where
  "object_location (object.LValue x) = location x"
| "object_location (object.Literal x) = location x"
| "object_location (object.Unary x) = location x"
| "object_location (object.Binary x) = location x"
| "object_location (object.Intrinsic x) = location x"
| "object_location (object.Conditional x) = location x"
| "object_location (object.Assignment x) = location x"
| "object_location (object.Sequence x) = location x"
| "object_location (object.Call x) = location x"
| "object_location (object.Constructor x) = location x"
| "object_location (object.Swizzle x) = location x"
| "object_location (object.FieldSelection x) = location x"
| "object_location (object.InitializerList x) = location x"
| "object_location (object.Compound x) = location x"
| "object_location (object.DeclaratorList x) = location x"
| "object_location (object.ExpressionStatement x) = location x"
| "object_location (object.If x) = location x"
| "object_location (object.Case x) = location x"
| "object_location (object.Switch x) = location x"
| "object_location (object.For x) = location x"
| "object_location (object.While x) = location x"
| "object_location (object.Return x) = location x"
| "object_location (object.Jump x) = location x"
| "object_location (object.Annotation x) = location x"
| "object_location (object.Variable x) = location x"
| "object_location (object.Struct x) = location x"
| "object_location (object.Function x) = location x"
| "object_location (object.Pass x) = location x"
| "object_location (object.Technique x) = location x"

fun object_set_location :: "'loc \<Rightarrow> 'loc object \<Rightarrow> 'loc object" where
  "object_set_location l (object.LValue x) = object.LValue (x\<lparr>location := l\<rparr>)"
| "object_set_location l (object.Literal x) = object.Literal (x\<lparr>location := l\<rparr>)"
| "object_set_location l (object.Unary x) = object.Unary (x\<lparr>location := l\<rparr>)"
| "object_set_location l (object.Binary x) = object.Binary (x\<lparr>location := l\<rparr>)"
| "object_set_location l (object.Intrinsic x) = object.Intrinsic (x\<lparr>location := l\<rparr>)"
| "object_set_location l (object.Conditional x) =
     object.Conditional (x\<lparr>location := l\<rparr>)"
| "object_set_location l (object.Assignment x) =
     object.Assignment (x\<lparr>location := l\<rparr>)"
| "object_set_location l (object.Sequence x) = object.Sequence (x\<lparr>location := l\<rparr>)"
| "object_set_location l (object.Call x) = object.Call (x\<lparr>location := l\<rparr>)"
| "object_set_location l (object.Constructor x) =
     object.Constructor (x\<lparr>location := l\<rparr>)"
| "object_set_location l (object.Swizzle x) = object.Swizzle (x\<lparr>location := l\<rparr>)"
| "object_set_location l (object.FieldSelection x) =
     object.FieldSelection (x\<lparr>location := l\<rparr>)"
| "object_set_location l (object.InitializerList x) =
     object.InitializerList (x\<lparr>location := l\<rparr>)"
| "object_set_location l (object.Compound x) = object.Compound (x\<lparr>location := l\<rparr>)"
| "object_set_location l (object.DeclaratorList x) =
     object.DeclaratorList (x\<lparr>location := l\<rparr>)"
| "object_set_location l (object.ExpressionStatement x) =
     object.ExpressionStatement (x\<lparr>location := l\<rparr>)"
| "object_set_location l (object.If x) = object.If (x\<lparr>location := l\<rparr>)"
| "object_set_location l (object.Case x) = object.Case (x\<lparr>location := l\<rparr>)"
| "object_set_location l (object.Switch x) = object.Switch (x\<lparr>location := l\<rparr>)"
| "object_set_location l (object.For x) = object.For (x\<lparr>location := l\<rparr>)"
| "object_set_location l (object.While x) = object.While (x\<lparr>location := l\<rparr>)"
| "object_set_location l (object.Return x) = object.Return (x\<lparr>location := l\<rparr>)"
| "object_set_location l (object.Jump x) = object.Jump (x\<lparr>location := l\<rparr>)"
| "object_set_location l (object.Annotation x) =
     object.Annotation (x\<lparr>location := l\<rparr>)"
| "object_set_location l (object.Variable x) = object.Variable (x\<lparr>location := l\<rparr>)"
| "object_set_location l (object.Struct x) = object.Struct (x\<lparr>location := l\<rparr>)"
| "object_set_location l (object.Function x) = object.Function (x\<lparr>location := l\<rparr>)"
| "object_set_location l (object.Pass x) = object.Pass (x\<lparr>location := l\<rparr>)"
| "object_set_location l (object.Technique x) = object.Technique (x\<lparr>location := l\<rparr>)"

fun shape_of :: "'loc object \<Rightarrow> shape" where
  "shape_of (object.LValue x) = shape.LValue"
| "shape_of (object.Literal x) = shape.Literal"
| "shape_of (object.Unary x) = shape.Unary"
| "shape_of (object.Binary x) = shape.Binary"
| "shape_of (object.Intrinsic x) = shape.Intrinsic"
| "shape_of (object.Conditional x) = shape.Conditional"
| "shape_of (object.Assignment x) = shape.Assignment"
| "shape_of (object.Sequence x) = shape.Sequence"
| "shape_of (object.Call x) = shape.Call"
| "shape_of (object.Constructor x) = shape.Constructor"
| "shape_of (object.Swizzle x) = shape.Swizzle"
| "shape_of (object.FieldSelection x) = shape.FieldSelection"
| "shape_of (object.InitializerList x) = shape.InitializerList"
| "shape_of (object.Compound x) = shape.Compound"
| "shape_of (object.DeclaratorList x) = shape.DeclaratorList"
| "shape_of (object.ExpressionStatement x) = shape.ExpressionStatement"
| "shape_of (object.If x) = shape.If"
| "shape_of (object.Case x) = shape.Case"
| "shape_of (object.Switch x) = shape.Switch"
| "shape_of (object.For x) = shape.For"
| "shape_of (object.While x) = shape.While"
| "shape_of (object.Return x) = shape.Return"
| "shape_of (object.Jump x) = shape.Jump"
| "shape_of (object.Annotation x) = shape.Annotation"
| "shape_of (object.Variable x) = shape.Variable"
| "shape_of (object.Struct x) = shape.Struct"
| "shape_of (object.Function x) = shape.Function"
| "shape_of (object.Pass x) = shape.Pass"
| "shape_of (object.Technique x) = shape.Technique"

text \<open>
  The three families. An object converts to \<open>Expression\<close>, \<open>Statement\<close> or \<open>Declaration\<close>
  when its struct derives from that base, and the conversion yields the base
  sub-object with the members the family carries: the result \<open>Type\<close>, the \<open>Attributes\<close>,
  or \<open>Name\<close> and \<open>Namespace\<close>.
\<close>

fun as_Expression :: "'loc object \<Rightarrow> 'loc Expression option" where
  "as_Expression (object.LValue x) = Some (Expression.truncate x)"
| "as_Expression (object.Literal x) = Some (Expression.truncate x)"
| "as_Expression (object.Unary x) = Some (Expression.truncate x)"
| "as_Expression (object.Binary x) = Some (Expression.truncate x)"
| "as_Expression (object.Intrinsic x) = Some (Expression.truncate x)"
| "as_Expression (object.Conditional x) = Some (Expression.truncate x)"
| "as_Expression (object.Assignment x) = Some (Expression.truncate x)"
| "as_Expression (object.Sequence x) = Some (Expression.truncate x)"
| "as_Expression (object.Call x) = Some (Expression.truncate x)"
| "as_Expression (object.Constructor x) = Some (Expression.truncate x)"
| "as_Expression (object.Swizzle x) = Some (Expression.truncate x)"
| "as_Expression (object.FieldSelection x) = Some (Expression.truncate x)"
| "as_Expression (object.InitializerList x) = Some (Expression.truncate x)"
| "as_Expression (object.Compound x) = None"
| "as_Expression (object.DeclaratorList x) = None"
| "as_Expression (object.ExpressionStatement x) = None"
| "as_Expression (object.If x) = None"
| "as_Expression (object.Case x) = None"
| "as_Expression (object.Switch x) = None"
| "as_Expression (object.For x) = None"
| "as_Expression (object.While x) = None"
| "as_Expression (object.Return x) = None"
| "as_Expression (object.Jump x) = None"
| "as_Expression (object.Annotation x) = None"
| "as_Expression (object.Variable x) = None"
| "as_Expression (object.Struct x) = None"
| "as_Expression (object.Function x) = None"
| "as_Expression (object.Pass x) = None"
| "as_Expression (object.Technique x) = None"

fun as_Statement :: "'loc object \<Rightarrow> 'loc Statement option" where
  "as_Statement (object.LValue x) = None"
| "as_Statement (object.Literal x) = None"
| "as_Statement (object.Unary x) = None"
| "as_Statement (object.Binary x) = None"
| "as_Statement (object.Intrinsic x) = None"
| "as_Statement (object.Conditional x) = None"
| "as_Statement (object.Assignment x) = None"
| "as_Statement (object.Sequence x) = None"
| "as_Statement (object.Call x) = None"
| "as_Statement (object.Constructor x) = None"
| "as_Statement (object.Swizzle x) = None"
| "as_Statement (object.FieldSelection x) = None"
| "as_Statement (object.InitializerList x) = None"
| "as_Statement (object.Compound x) = Some (Statement.truncate x)"
| "as_Statement (object.DeclaratorList x) = Some (Statement.truncate x)"
| "as_Statement (object.ExpressionStatement x) = Some (Statement.truncate x)"
| "as_Statement (object.If x) = Some (Statement.truncate x)"
| "as_Statement (object.Case x) = Some (Statement.truncate x)"
| "as_Statement (object.Switch x) = Some (Statement.truncate x)"
| "as_Statement (object.For x) = Some (Statement.truncate x)"
| "as_Statement (object.While x) = Some (Statement.truncate x)"
| "as_Statement (object.Return x) = Some (Statement.truncate x)"
| "as_Statement (object.Jump x) = Some (Statement.truncate x)"
| "as_Statement (object.Annotation x) = None"
| "as_Statement (object.Variable x) = None"
| "as_Statement (object.Struct x) = None"
| "as_Statement (object.Function x) = None"
| "as_Statement (object.Pass x) = None"
| "as_Statement (object.Technique x) = None"

fun as_Declaration :: "'loc object \<Rightarrow> 'loc Declaration option" where
  "as_Declaration (object.LValue x) = None"
| "as_Declaration (object.Literal x) = None"
| "as_Declaration (object.Unary x) = None"
| "as_Declaration (object.Binary x) = None"
| "as_Declaration (object.Intrinsic x) = None"
| "as_Declaration (object.Conditional x) = None"
| "as_Declaration (object.Assignment x) = None"
| "as_Declaration (object.Sequence x) = None"
| "as_Declaration (object.Call x) = None"
| "as_Declaration (object.Constructor x) = None"
| "as_Declaration (object.Swizzle x) = None"
| "as_Declaration (object.FieldSelection x) = None"
| "as_Declaration (object.InitializerList x) = None"
| "as_Declaration (object.Compound x) = None"
| "as_Declaration (object.DeclaratorList x) = None"
| "as_Declaration (object.ExpressionStatement x) = None"
| "as_Declaration (object.If x) = None"
| "as_Declaration (object.Case x) = None"
| "as_Declaration (object.Switch x) = None"
| "as_Declaration (object.For x) = None"
| "as_Declaration (object.While x) = None"
| "as_Declaration (object.Return x) = None"
| "as_Declaration (object.Jump x) = None"
| "as_Declaration (object.Annotation x) = None"
| "as_Declaration (object.Variable x) = Some (Declaration.truncate x)"
| "as_Declaration (object.Struct x) = Some (Declaration.truncate x)"
| "as_Declaration (object.Function x) = Some (Declaration.truncate x)"
| "as_Declaration (object.Pass x) = Some (Declaration.truncate x)"
| "as_Declaration (object.Technique x) = Some (Declaration.truncate x)"

definition families :: "'loc object \<Rightarrow> bool list" where
  "families obj =
     [as_Expression obj \<noteq> None, as_Statement obj \<noteq> None, as_Declaration obj \<noteq> None]"

subsection \<open>The node tree\<close>

text \<open>
  \<open>class nodetree\<close>: the four collections of top-level declarations and the pool
  \<open>_pool\<close>, whose slots hold objects and whose destructors are named by shapes.
\<close>

record 'loc nodetree =
  structs :: "pointer list"
  uniforms :: "pointer list"
  "functions" :: "pointer list"
  techniques :: "pointer list"
  pool :: "(shape, 'loc object) memory_pool"

text \<open>
  The object a pointer into the pool refers to, and an assignment to a member through
  the pointer. A pointer that refers to no slot cannot be written through.
\<close>

definition deref :: "('t, 'a) memory_pool \<Rightarrow> addr \<Rightarrow> 'a option" where
  "deref pages node =
     (if fst node < length pages
      then map_option data (memory (pages ! fst node) (snd node))
      else None)"

definition assign ::
  "addr \<Rightarrow> ('a \<Rightarrow> 'a) \<Rightarrow> ('t, 'a) memory_pool \<Rightarrow> error + ('t, 'a) memory_pool" where
  "assign node f pages =
     (if fst node < length pages
      then (case memory (pages ! fst node) (snd node) of
              None \<Rightarrow> Inl invalid_pointer
            | Some n \<Rightarrow>
                Inr (pages[fst node := (pages ! fst node)\<lparr>memory :=
                       (memory (pages ! fst node))(snd node \<mapsto> n\<lparr>data := f (data n)\<rparr>)\<rparr>]))
      else Inl invalid_pointer)"

text \<open>
  \<open>make_node<T>(location)\<close>. \<open>footprint T\<close> is the slot size
  \<open>sizeof(nodeinfo) - sizeof(node) + sizeof(T)\<close> that \<open>add<T>\<close> computes, a constant of
  the platform.
\<close>

definition make_node ::
  "(shape \<Rightarrow> nat) \<Rightarrow> 'loc \<Rightarrow> shape \<Rightarrow> 'loc \<Rightarrow> 'loc nodetree
     \<Rightarrow> error + (addr \<times> 'loc nodetree)" where
  "make_node footprint loc0 T l tree =
     (case add (footprint T) T (new_object loc0 T) (pool tree) of
        Inl e \<Rightarrow> Inl e
      | Inr (node, pages) \<Rightarrow>
          (case assign node (object_set_location l) pages of
             Inl e \<Rightarrow> Inl e
           | Inr pages' \<Rightarrow> Inr (node, tree\<lparr>pool := pages'\<rparr>)))"

section \<open>Properties of the type descriptor\<close>

lemma IsTexture_iff:
  "IsTexture t \<longleftrightarrow> BaseClass t = Class.Texture1D \<or> BaseClass t = Class.Texture2D"
  by (cases "BaseClass t") (simp_all add: IsTexture_def)

lemma IsSampler_iff:
  "IsSampler t \<longleftrightarrow> BaseClass t = Class.Sampler1D \<or> BaseClass t = Class.Sampler2D
     \<or> BaseClass t = Class.Sampler3D"
  by (cases "BaseClass t") (simp_all add: IsSampler_def)

lemma IsNumeric_iff:
  "IsNumeric t \<longleftrightarrow> BaseClass t = Class.Bool \<or> BaseClass t = Class.Int
     \<or> BaseClass t = Class.Uint \<or> BaseClass t = Class.Float"
  by (auto simp: IsNumeric_def IsBoolean_def IsIntegral_def IsFloatingPoint_def)

lemma HasQualifier_iff_bits:
  "HasQualifier t q \<longleftrightarrow> (\<forall>n. bit q n \<longrightarrow> bit (Qualifiers t) n)"
proof
  assume "HasQualifier t q"
  then have e: "Qualifiers t AND q = q"
    by (simp add: HasQualifier_def)
  show "\<forall>n. bit q n \<longrightarrow> bit (Qualifiers t) n"
  proof (intro allI impI)
    fix n
    assume "bit q n"
    then have "bit (Qualifiers t AND q) n"
      by (simp add: e)
    then show "bit (Qualifiers t) n"
      by (simp add: bit_and_iff)
  qed
next
  assume a: "\<forall>n. bit q n \<longrightarrow> bit (Qualifiers t) n"
  have "Qualifiers t AND q = q"
    by (rule bit_eqI) (use a in \<open>auto simp: bit_and_iff\<close>)
  then show "HasQualifier t q"
    by (simp add: HasQualifier_def)
qed

lemma bit_In: "bit In n \<longleftrightarrow> n = 5"
  unfolding In_def push_bit_of_1 bit_exp_iff by auto

lemma bit_Out: "bit Out n \<longleftrightarrow> n = 6"
  unfolding Out_def push_bit_of_1 bit_exp_iff by auto

text \<open>
  Claim C2, as stated, fails: the nine outcomes test independent fields (the base class,
  the dimensions, the array length), so several can hold at once and none may hold. An
  array of structs is both \<open>IsArray\<close> and \<open>IsStruct\<close>; a plain \<open>Texture3D\<close> satisfies none
  of the nine (\<open>IsTexture\<close> stops at \<open>Texture2D\<close>).
\<close>

theorem classification_not_exactly_one:
  "\<not> exactly_one (classification struct_array)
   \<and> IsArray struct_array \<and> IsStruct struct_array
   \<and> \<not> exactly_one (classification texture3d)
   \<and> filter (\<lambda>b. b) (classification texture3d) = []"
  by (simp add: exactly_one_def classification_def struct_array_def texture3d_def IsVoid_def
      IsScalar_def IsVector_def IsMatrix_def IsArray_def IsStruct_def IsTexture_def
      IsSampler_def IsString_def IsNumeric_iff)

text \<open>
  Claim C2, amended: exactly one of the nine outcomes holds precisely for these values:
  a numeric base class (Bool, Int, Uint, Float) that is not both an array and a
  vector or matrix; the base class Texture3D with exactly one of
  \<open>IsArray\<close>, \<open>IsVector\<close>, \<open>IsMatrix\<close>; any other base class (Void, Struct, String, a
  sampler, Texture1D, Texture2D) with none of \<open>IsArray\<close>, \<open>IsVector\<close>, \<open>IsMatrix\<close>.
  A value with rows 4, columns 4 and array length 0 is among them and reports
  \<open>IsMatrix\<close> true, \<open>IsVector\<close> false and \<open>IsScalar\<close> false.
\<close>

theorem classification_exactly_one_iff:
  "(exactly_one (classification t) \<longleftrightarrow>
      (if IsNumeric t then \<not> (IsArray t \<and> (IsVector t \<or> IsMatrix t))
       else if BaseClass t = Class.Texture3D
         then exactly_one [IsArray t, IsVector t, IsMatrix t]
       else \<not> IsArray t \<and> \<not> IsVector t \<and> \<not> IsMatrix t))
   \<and> exactly_one (classification float4x4)
   \<and> IsMatrix float4x4 \<and> \<not> IsVector float4x4 \<and> \<not> IsScalar float4x4"
proof -
  have vm: "\<not> (IsVector t \<and> IsMatrix t)"
    by (simp add: IsVector_def)
  have gen: "exactly_one (classification t) \<longleftrightarrow>
      (if IsNumeric t then \<not> (IsArray t \<and> (IsVector t \<or> IsMatrix t))
       else if BaseClass t = Class.Texture3D
         then exactly_one [IsArray t, IsVector t, IsMatrix t]
       else \<not> IsArray t \<and> \<not> IsVector t \<and> \<not> IsMatrix t)"
    using vm
    by (cases "BaseClass t")
       (auto simp: exactly_one_def classification_def IsVoid_def IsScalar_def
          IsStruct_def IsTexture_iff IsSampler_iff IsString_def IsNumeric_iff)
  have m: "IsMatrix float4x4"
    by (simp add: IsMatrix_def float4x4_def)
  have v: "\<not> IsVector float4x4"
    using m by (simp add: IsVector_def)
  have s: "\<not> IsScalar float4x4"
    using m by (simp add: IsScalar_def)
  have e: "exactly_one (classification float4x4)"
    by (simp add: exactly_one_def classification_def float4x4_def IsVoid_def IsScalar_def
          IsVector_def IsMatrix_def IsArray_def IsStruct_def IsTexture_def IsSampler_def
          IsString_def IsNumeric_iff)
  show ?thesis
    by (intro conjI; fact)
qed

text \<open>
  Claim C3: \<open>IsTexture\<close> holds exactly for the base classes Texture1D and Texture2D
  (so not for Texture3D), and \<open>IsSampler\<close> exactly for Sampler1D, Sampler2D and
  Sampler3D.
\<close>

theorem IsTexture_IsSampler_ranges:
  "(IsTexture t \<longleftrightarrow> BaseClass t = Class.Texture1D \<or> BaseClass t = Class.Texture2D)
   \<and> (IsSampler t \<longleftrightarrow> BaseClass t = Class.Sampler1D \<or> BaseClass t = Class.Sampler2D
         \<or> BaseClass t = Class.Sampler3D)
   \<and> \<not> IsTexture (t\<lparr>BaseClass := Class.Texture3D\<rparr>)"
  by (simp add: IsTexture_iff IsSampler_iff)

text \<open>
  Claim C7: \<open>IsArray\<close> iff the array length is not 0; \<open>IsMatrix\<close> iff rows \<open>\<ge> 1\<close> and
  columns \<open>> 1\<close>; \<open>IsVector\<close> iff rows \<open>> 1\<close> and not \<open>IsMatrix\<close> (that is, columns
  \<open>\<le> 1\<close>); \<open>IsScalar\<close> iff none of the three holds and \<open>IsNumeric\<close> does; \<open>IsNumeric\<close> iff
  the base class is Bool, Int, Uint or Float. The descriptor Float, 1 row, 1 column,
  array length 0 is a scalar and not an array.
\<close>

theorem classification_rules:
  "(IsArray t \<longleftrightarrow> ArrayLength t \<noteq> 0)
   \<and> (IsMatrix t \<longleftrightarrow> Rows t \<ge> 1 \<and> Cols t > 1)
   \<and> (IsVector t \<longleftrightarrow> Rows t > 1 \<and> \<not> IsMatrix t)
   \<and> (IsScalar t \<longleftrightarrow> \<not> IsArray t \<and> \<not> IsMatrix t \<and> \<not> IsVector t \<and> IsNumeric t)
   \<and> (IsNumeric t \<longleftrightarrow> IsBoolean t \<or> IsIntegral t \<or> IsFloatingPoint t)
   \<and> (IsNumeric t \<longleftrightarrow> BaseClass t \<in> {Class.Bool, Class.Int, Class.Uint, Class.Float})
   \<and> (IsVector t \<longleftrightarrow> Rows t > 1 \<and> Cols t \<le> 1)
   \<and> (IsScalar t \<longleftrightarrow>
        ArrayLength t = 0 \<and> (Rows t = 0 \<or> Rows t = 1 \<and> Cols t \<le> 1) \<and> IsNumeric t)
   \<and> IsScalar float1 \<and> \<not> IsArray float1"
proof -
  have arr: "IsArray t \<longleftrightarrow> ArrayLength t \<noteq> 0"
    by (simp add: IsArray_def)
  have mat: "IsMatrix t \<longleftrightarrow> Rows t \<ge> 1 \<and> Cols t > 1"
    by (simp add: IsMatrix_def)
  have vec: "IsVector t \<longleftrightarrow> Rows t > 1 \<and> \<not> IsMatrix t"
    by (simp add: IsVector_def)
  have sca: "IsScalar t \<longleftrightarrow> \<not> IsArray t \<and> \<not> IsMatrix t \<and> \<not> IsVector t \<and> IsNumeric t"
    by (simp add: IsScalar_def)
  have num: "IsNumeric t \<longleftrightarrow> IsBoolean t \<or> IsIntegral t \<or> IsFloatingPoint t"
    by (simp add: IsNumeric_def)
  have num': "IsNumeric t \<longleftrightarrow> BaseClass t \<in> {Class.Bool, Class.Int, Class.Uint, Class.Float}"
    by (simp add: IsNumeric_iff)
  have vec': "IsVector t \<longleftrightarrow> Rows t > 1 \<and> Cols t \<le> 1"
    by (auto simp: IsVector_def IsMatrix_def word_le_nat_alt word_less_nat_alt)
  have sca': "IsScalar t \<longleftrightarrow>
      ArrayLength t = 0 \<and> (Rows t = 0 \<or> Rows t = 1 \<and> Cols t \<le> 1) \<and> IsNumeric t"
    unfolding IsScalar_def IsArray_def vec' IsMatrix_def
    by (auto simp: word_le_nat_alt word_less_nat_alt word_unat_eq_iff)
  have f1: "IsScalar float1"
    by (simp add: IsScalar_def IsArray_def IsMatrix_def IsVector_def IsNumeric_iff float1_def)
  have f2: "\<not> IsArray float1"
    by (simp add: IsArray_def float1_def)
  show ?thesis
    by (intro conjI; fact)
qed

text \<open>
  Claim C8: \<open>HasQualifier q\<close> holds iff every bit of \<open>q\<close> is set in the qualifier mask.
  For the combined flag \<open>InOut\<close> that is: both the \<open>In\<close> bit (bit 5) and the \<open>Out\<close> bit
  (bit 6) are set; a mask holding only \<open>In\<close> does not have \<open>InOut\<close>.
\<close>

theorem HasQualifier_all_bits:
  "(HasQualifier t q \<longleftrightarrow> (\<forall>n. bit q n \<longrightarrow> bit (Qualifiers t) n))
   \<and> (HasQualifier t InOut \<longleftrightarrow> HasQualifier t In \<and> HasQualifier t Out)
   \<and> (HasQualifier t In \<longleftrightarrow> bit (Qualifiers t) 5)
   \<and> (HasQualifier t Out \<longleftrightarrow> bit (Qualifiers t) 6)
   \<and> \<not> HasQualifier (t\<lparr>Qualifiers := In\<rparr>) InOut"
proof -
  have a: "HasQualifier t q \<longleftrightarrow> (\<forall>n. bit q n \<longrightarrow> bit (Qualifiers t) n)"
    by (rule HasQualifier_iff_bits)
  have b: "HasQualifier t InOut \<longleftrightarrow> HasQualifier t In \<and> HasQualifier t Out"
    by (auto simp: HasQualifier_iff_bits InOut_def bit_or_iff)
  have c: "HasQualifier t In \<longleftrightarrow> bit (Qualifiers t) 5"
    by (simp add: HasQualifier_iff_bits bit_In)
  have d: "HasQualifier t Out \<longleftrightarrow> bit (Qualifiers t) 6"
    by (simp add: HasQualifier_iff_bits bit_Out)
  have e: "\<not> HasQualifier (t\<lparr>Qualifiers := In\<rparr>) InOut"
    by (auto simp: HasQualifier_iff_bits InOut_def bit_or_iff bit_In bit_Out)
  show ?thesis
    by (intro conjI; fact)
qed

theorem HasQualifier_all_bits_witness:
  "HasQualifier (float1\<lparr>Qualifiers := In OR Out\<rparr>) InOut
   \<and> HasQualifier (float1\<lparr>Qualifiers := In OR Out\<rparr>) In
   \<and> \<not> HasQualifier (float1\<lparr>Qualifiers := In\<rparr>) InOut
   \<and> \<not> HasQualifier (float1\<lparr>Qualifiers := In\<rparr>) Out"
  using HasQualifier_all_bits [of "float1\<lparr>Qualifiers := In OR Out\<rparr>" InOut]
    HasQualifier_all_bits [of "float1\<lparr>Qualifiers := In\<rparr>" InOut]
  by (simp add: bit_or_iff bit_In bit_Out InOut_def)

section \<open>Properties of the arena\<close>

declare clear_loop.simps [simp del]

lemma find_page_None_iff:
  "find_page sz pages = None \<longleftrightarrow> (\<forall>p\<in>set pages. memory_size p \<le> cursor p + sz)"
  by (induction pages) auto

lemma find_page_Some:
  "find_page sz pages = Some i \<Longrightarrow>
     i < length pages \<and> cursor (pages ! i) + sz < memory_size (pages ! i)"
  by (induction pages arbitrary: i) (auto split: if_splits)

lemma add_new_page:
  assumes "find_page sz pages = None"
  shows "add sz T v pages =
    Inr ((length pages, 0),
         pages @ [\<lparr>cursor = sz, memory_size = max 4096 sz,
                   memory = [0 \<mapsto> \<lparr>size_field = sz, dtor = T, data = v\<rparr>]\<rparr>])"
  using assms by (simp add: add_def page_ctor_def nth_append Let_def)

lemma add_existing_page:
  assumes "find_page sz pages = Some i"
  shows "add sz T v pages =
    Inr ((i, cursor (pages ! i)),
         pages[i := (pages ! i)\<lparr>memory := (memory (pages ! i))(cursor (pages ! i) \<mapsto>
                          \<lparr>size_field = sz, dtor = T, data = v\<rparr>),
                        cursor := cursor (pages ! i) + sz\<rparr>])"
  using assms find_page_Some[OF assms] by (simp add: add_def Let_def)

lemma add_deref:
  "\<exists>node pages'. add sz T v pages = Inr (node, pages') \<and>
      fst node < length pages' \<and>
      memory (pages' ! fst node) (snd node) = Some \<lparr>size_field = sz, dtor = T, data = v\<rparr>"
proof (cases "find_page sz pages")
  case None
  then show ?thesis
    by (simp add: add_new_page nth_append)
next
  case (Some i)
  then show ?thesis
    using find_page_Some[OF Some] by (simp add: add_existing_page)
qed

text \<open>
  Claim C6: \<open>add<T>\<close> always returns an object (the model has no branch for the
  allocator running out of memory). When no page has room for the footprint, that is
  \<open>cursor + size\<close> reaches \<open>memory.size()\<close> on every page, it appends a page of
  \<open>max(4096, size)\<close> bytes and places the slot at offset 0 of it; the older pages are
  unchanged. A page whose free room equals the footprint exactly counts as having no
  room, since the fit test of \<open>add\<close> is strict.
\<close>

theorem add_appends_page_when_none_fits:
  "(\<exists>node pages'. add sz T v pages = Inr (node, pages'))
   \<and> ((\<forall>p\<in>set pages. memory_size p \<le> cursor p + sz) \<longrightarrow>
        add sz T v pages =
          Inr ((length pages, 0),
               pages @ [\<lparr>cursor = sz, memory_size = max 4096 sz,
                         memory = [0 \<mapsto> \<lparr>size_field = sz, dtor = T, data = v\<rparr>]\<rparr>]))"
proof (intro conjI impI)
  show "\<exists>node pages'. add sz T v pages = Inr (node, pages')"
    using add_deref [of sz T v pages] by blast
next
  assume "\<forall>p\<in>set pages. memory_size p \<le> cursor p + sz"
  then have "find_page sz pages = None"
    by (simp add: find_page_None_iff)
  then show "add sz T v pages =
          Inr ((length pages, 0),
               pages @ [\<lparr>cursor = sz, memory_size = max 4096 sz,
                         memory = [0 \<mapsto> \<lparr>size_field = sz, dtor = T, data = v\<rparr>]\<rparr>])"
    by (rule add_new_page)
qed

theorem add_appends_page_when_none_fits_witness:
  "memory_size full_page \<le> cursor full_page + 200
   \<and> add 200 (2::nat) () [full_page] =
        Inr ((1, 0), [full_page, \<lparr>cursor = 200, memory_size = 4096,
                         memory = [0 \<mapsto> \<lparr>size_field = 200, dtor = 2, data = ()\<rparr>]\<rparr>])"
  using add_appends_page_when_none_fits [of 200 "2::nat" "()" "[full_page]"]
  by (simp add: full_page_def)

text \<open>
  Claim C1 states the release invariant for every sequence of allocations, a page that
  its slot fills exactly included. There the code breaks it. \<open>add<T>\<close> with a footprint
  of 5000 bytes (or of exactly 4096) on an empty pool makes a page of that many bytes
  and leaves the cursor at its end. \<open>clear()\<close> then calls the slot's destructor, steps
  to offset 5000 and evaluates \<open>node->size\<close> there, past the end of the page's buffer:
  from that read on the loop has no defined outcome, whether \<open>sizeof(size_t)\<close> is 8 or 4.
\<close>

theorem clear_reads_past_exactly_filled_page:
  "add 5000 T v [] = Inr ((0, 0), [exact_page 5000 T v])
   \<and> cursor (exact_page 5000 T v) = memory_size (exact_page 5000 T v)
   \<and> clear 8 [exact_page 5000 T v] = Inl (out_of_bounds, [(T, (0, 0))])
   \<and> clear 4 [exact_page 5000 T v] = Inl (out_of_bounds, [(T, (0, 0))])
   \<and> add 4096 T v [] = Inr ((0, 0), [exact_page 4096 T v])
   \<and> clear 8 [exact_page 4096 T v] = Inl (out_of_bounds, [(T, (0, 0))])
   \<and> clear 4 [exact_page 4096 T v] = Inl (out_of_bounds, [(T, (0, 0))])"
  by (simp add: add_new_page exact_page_def clear_def clear_loop.simps read_dtor_def
      read_size_def)

subsection \<open>\<open>clear()\<close> on pages that keep a zero word after their last slot\<close>

lemma size_t_sub_le:
  assumes "b \<le> a" and "a < 2 ^ (8 * w)"
  shows "size_t_sub w a b = a - b"
proof -
  define M :: nat where "M = 2 ^ (8 * w)"
  have b: "b mod M = b"
    using assms by (simp add: M_def)
  have "a + (M - b) = (a - b) + M"
    using assms by (simp add: M_def)
  then have "(a + (M - b)) mod M = (a - b) mod M"
    by simp
  also have "\<dots> = a - b"
    using assms by (simp add: M_def less_imp_diff_less)
  finally show ?thesis
    using b by (simp add: size_t_sub_def M_def)
qed

lemma laid_out_cursor [simp]:
  "laid_out w (page\<lparr>cursor := c\<rparr>) node slots = laid_out w page node slots"
  by (induction slots arbitrary: node) (auto split: option.splits)

lemma laid_out_end:
  "laid_out w page node slots \<Longrightarrow> node + sum_list (map fst slots) + w \<le> memory_size page"
proof (induction slots arbitrary: node)
  case Nil
  then show ?case
    by simp
next
  case (Cons s slots)
  obtain sz T where s: "s = (sz, T)"
    by (cases s)
  have "laid_out w page (node + sz) slots"
    using Cons.prems s by (auto split: option.splits)
  then have "node + sz + sum_list (map fst slots) + w \<le> memory_size page"
    by (rule Cons.IH)
  then show ?case
    using s by (simp add: add.assoc)
qed

lemma clear_loop_laid_out:
  assumes "laid_out w page node ((sz, T) # slots)"
    and "sum_list (map fst slots) < cursor page"
    and "cursor page < 2 ^ (8 * w)"
  shows "clear_loop w i page node calls =
     Inr (page\<lparr>cursor := cursor page - sum_list (map fst slots)\<rparr>,
          calls @ slot_calls i node ((sz, T) # slots))"
  using assms
proof (induction slots arbitrary: page node sz T calls)
  case Nil
  then show ?case
    by (subst clear_loop.simps)
       (auto simp: read_dtor_def read_size_def split: option.splits)
next
  case (Cons s slots)
  obtain sz' T' where s: "s = (sz', T')"
    by (cases s)
  let ?page' = "page\<lparr>cursor := cursor page - sz'\<rparr>"
  have le: "sz' \<le> cursor page" and pos: "0 < cursor page - sz'"
    using Cons.prems(2) s by auto
  have sub: "size_t_sub w (cursor page) sz' = cursor page - sz'"
    using le Cons.prems(3) by (rule size_t_sub_le)
  have next_ok: "laid_out w ?page' (node + sz) ((sz', T') # slots)"
    using Cons.prems(1) s by (auto split: option.splits)
  have step: "clear_loop w i page node calls =
      clear_loop w i ?page' (node + sz) (calls @ [(T, (i, node))])"
    using Cons.prems(1) s sub pos
    by (subst clear_loop.simps)
       (auto simp: read_dtor_def read_size_def Let_def split: option.splits)
  have "clear_loop w i ?page' (node + sz) (calls @ [(T, (i, node))]) =
     Inr (?page'\<lparr>cursor := cursor ?page' - sum_list (map fst slots)\<rparr>,
          (calls @ [(T, (i, node))]) @ slot_calls i (node + sz) ((sz', T') # slots))"
    using next_ok Cons.prems(2,3) s by (intro Cons.IH) auto
  then show ?case
    using step s by (simp add: diff_diff_add add.commute)
qed

lemma clear_loop_page_inv:
  assumes inv: "page_inv w page slots" and big: "4096 < (2::nat) ^ (8 * w)"
  shows "\<exists>page'. clear_loop w i page 0 calls = Inr (page', calls @ slot_calls i 0 slots)"
proof -
  obtain sz T rest where slots: "slots = (sz, T) # rest"
    using inv by (cases slots) (auto simp: page_inv_def)
  have lo: "laid_out w page 0 ((sz, T) # rest)"
    using inv slots by (simp add: page_inv_def)
  have "0 < sz"
    using lo by (auto split: option.splits)
  then have a: "sum_list (map fst rest) < cursor page"
    using inv slots by (simp add: page_inv_def)
  have "cursor page + w \<le> memory_size page"
    using laid_out_end [OF lo] inv slots by (simp add: page_inv_def)
  then have b: "cursor page < 2 ^ (8 * w)"
    using inv big by (simp add: page_inv_def)
  show ?thesis
    using clear_loop_laid_out [OF lo a b] slots by simp
qed

lemma clear_pages_pool_inv:
  assumes "list_all2 (page_inv w) pages layouts" and "4096 < (2::nat) ^ (8 * w)"
  shows "\<exists>pages'. clear_pages w i pages calls = Inr (pages', calls @ pool_calls i layouts)"
  using assms(1)
proof (induction pages layouts arbitrary: i calls rule: list_all2_induct)
  case Nil
  then show ?case
    by simp
next
  case (Cons page pages slots layouts)
  obtain page' where a: "clear_loop w i page 0 calls = Inr (page', calls @ slot_calls i 0 slots)"
    using clear_loop_page_inv [OF Cons.hyps(1) assms(2)] by blast
  obtain pages' where b: "clear_pages w (Suc i) pages (calls @ slot_calls i 0 slots) =
      Inr (pages', (calls @ slot_calls i 0 slots) @ pool_calls (Suc i) layouts)"
    using Cons.IH by blast
  show ?case
    using a b by simp
qed

lemma slot_calls_append:
  "slot_calls i node (slots @ [(sz, T)]) =
     slot_calls i node slots @ [(T, (i, node + sum_list (map fst slots)))]"
  by (induction slots arbitrary: node) (auto simp: add.assoc)

lemma pool_calls_append:
  "pool_calls i (layouts @ [slots]) = pool_calls i layouts @ slot_calls (i + length layouts) 0 slots"
  by (induction layouts arbitrary: i) auto

lemma pool_calls_update:
  "k < length layouts \<Longrightarrow>
   mset (pool_calls i (layouts[k := layouts ! k @ [(sz, T)]])) =
     add_mset (T, (i + k, sum_list (map fst (layouts ! k)))) (mset (pool_calls i layouts))"
proof (induction layouts arbitrary: i k)
  case Nil
  then show ?case
    by simp
next
  case (Cons slots layouts)
  show ?case
  proof (cases k)
    case 0
    then show ?thesis
      by (simp add: slot_calls_append)
  next
    case (Suc k')
    then show ?thesis
      using Cons.IH [of k' "Suc i"] Cons.prems by simp
  qed
qed

lemma laid_out_snoc:
  assumes "laid_out w page node slots"
    and "c = node + sum_list (map fst slots)"
    and "0 < sz" and "2 * w \<le> sz"
    and "c + sz + w \<le> memory_size page"
    and "memory page (c + sz) = None"
    and mem: "memory page' = (memory page)(c \<mapsto> \<lparr>size_field = sz, dtor = T, data = v\<rparr>)"
    and len: "memory_size page' = memory_size page"
  shows "laid_out w page' node (slots @ [(sz, T)])"
  using assms(1,2)
proof (induction slots arbitrary: node)
  case Nil
  then show ?case
    using assms(3-6) by (simp add: mem len)
next
  case (Cons s slots)
  obtain sz' T' where s: "s = (sz', T')"
    by (cases s)
  obtain n where n: "memory page node = Some n" "size_field n = sz'" "dtor n = T'" "0 < sz'"
      "node + 2 * w \<le> memory_size page" "laid_out w page (node + sz') slots"
    using Cons.prems(1) s by (auto split: option.splits)
  have ne: "node \<noteq> c"
    using Cons.prems(2) s n(4) by simp
  have "laid_out w page' (node + sz') (slots @ [(sz, T)])"
    using n(6) Cons.prems(2) s by (intro Cons.IH) (auto simp: add.assoc)
  then show ?case
    using s n ne by (simp add: mem len)
qed

lemma dvd_step:
  fixes w a b :: nat
  assumes "w dvd a" "w dvd b" "a < b"
  shows "a + w \<le> b"
proof -
  obtain j where j: "a = w * j" using assms(1) by (auto elim: dvdE)
  obtain k where k: "b = w * k" using assms(2) by (auto elim: dvdE)
  have "j < k"
    using assms(3) j k by (metis mult_less_cancel1)
  then have "Suc j \<le> k" by simp
  then have "w * Suc j \<le> w * k" by (rule mult_le_mono2)
  then show ?thesis
    using j k by simp
qed

lemma page_inv_new_page:
  assumes "0 < w" "w dvd 4096" "w dvd sz" "2 * w \<le> sz" "sz < 4096"
  shows "page_inv w \<lparr>cursor = sz, memory_size = max 4096 sz,
           memory = [0 \<mapsto> \<lparr>size_field = sz, dtor = T, data = v\<rparr>]\<rparr> [(sz, T)]"
proof -
  have "sz + w \<le> 4096"
    using assms by (intro dvd_step) auto
  then show ?thesis
    using assms by (auto simp: page_inv_def max_def)
qed

lemma page_inv_add_slot:
  assumes inv: "page_inv w page slots"
    and w: "0 < w" "w dvd 4096"
    and sz: "w dvd sz" "2 * w \<le> sz"
    and fits: "cursor page + sz < memory_size page"
  shows "page_inv w (page\<lparr>memory := (memory page)(cursor page \<mapsto>
                          \<lparr>size_field = sz, dtor = T, data = v\<rparr>),
                        cursor := cursor page + sz\<rparr>) (slots @ [(sz, T)])"
proof -
  let ?page' = "page\<lparr>memory := (memory page)(cursor page \<mapsto>
      \<lparr>size_field = sz, dtor = T, data = v\<rparr>), cursor := cursor page + sz\<rparr>"
  have pos: "0 < sz"
    using w sz by auto
  have len: "memory_size page = 4096" and cur: "cursor page = sum_list (map fst slots)"
    and dv: "w dvd cursor page" and lo: "laid_out w page 0 slots"
    and free: "\<And>node. cursor page \<le> node \<Longrightarrow> memory page node = None"
    using inv by (auto simp: page_inv_def)
  have room: "cursor page + sz + w \<le> memory_size page"
    using dv sz w fits len by (intro dvd_step) auto
  have "laid_out w ?page' 0 (slots @ [(sz, T)])"
    using lo cur pos sz(2) room free
    by (intro laid_out_snoc [where page = page and c = "cursor page" and v = v]) auto
  moreover have "\<And>node. cursor ?page' \<le> node \<Longrightarrow> memory ?page' node = None"
    using pos free by auto
  ultimately show ?thesis
    using len cur dv sz(1) by (simp add: page_inv_def)
qed

lemma add_pool_inv:
  assumes inv: "pool_inv w pages layouts"
    and w: "0 < w" "w dvd 4096"
    and sz: "w dvd sz" "2 * w \<le> sz" "sz < 4096"
  shows "\<exists>node pages' layouts'.
      add sz T v pages = Inr (node, pages') \<and> pool_inv w pages' layouts'
      \<and> mset (pool_calls 0 layouts') = add_mset (T, node) (mset (pool_calls 0 layouts))"
proof (cases "find_page sz pages")
  case None
  have len: "length pages = length layouts"
    using inv by (simp add: pool_inv_def list_all2_lengthD)
  let ?page = "\<lparr>cursor = sz, memory_size = max 4096 sz,
      memory = [0 \<mapsto> \<lparr>size_field = sz, dtor = T, data = v\<rparr>]\<rparr>"
  have "pool_inv w (pages @ [?page]) (layouts @ [[(sz, T)]])"
    using inv page_inv_new_page [OF w sz, of T v]
    by (simp add: pool_inv_def list_all2_appendI)
  moreover have "mset (pool_calls 0 (layouts @ [[(sz, T)]])) =
      add_mset (T, (length pages, 0)) (mset (pool_calls 0 layouts))"
    by (simp add: pool_calls_append len)
  ultimately show ?thesis
    using add_new_page [OF None] by blast
next
  case (Some i)
  have i: "i < length pages" and fits: "cursor (pages ! i) + sz < memory_size (pages ! i)"
    using find_page_Some [OF Some] by auto
  have len: "length pages = length layouts"
    using inv by (simp add: pool_inv_def list_all2_lengthD)
  have pinv: "page_inv w (pages ! i) (layouts ! i)"
    using inv i by (simp add: pool_inv_def list_all2_nthD)
  let ?page' = "(pages ! i)\<lparr>memory := (memory (pages ! i))(cursor (pages ! i) \<mapsto>
      \<lparr>size_field = sz, dtor = T, data = v\<rparr>), cursor := cursor (pages ! i) + sz\<rparr>"
  have "page_inv w ?page' (layouts ! i @ [(sz, T)])"
    using pinv w sz(1,2) fits by (rule page_inv_add_slot)
  then have "pool_inv w (pages[i := ?page']) (layouts[i := layouts ! i @ [(sz, T)]])"
    using inv by (simp add: pool_inv_def list_all2_update_cong)
  moreover have "mset (pool_calls 0 (layouts[i := layouts ! i @ [(sz, T)]])) =
      add_mset (T, (i, cursor (pages ! i))) (mset (pool_calls 0 layouts))"
    using pool_calls_update [of i layouts 0 sz T] i len pinv by (simp add: page_inv_def)
  ultimately show ?thesis
    using add_existing_page [OF Some] by blast
qed

lemma add_all_pool_inv:
  assumes w: "0 < w" "w dvd 4096"
  shows "pool_inv w pages layouts \<Longrightarrow>
    \<forall>(sz, T, v)\<in>set reqs. w dvd sz \<and> 2 * w \<le> sz \<and> sz < 4096 \<Longrightarrow>
    \<exists>nodes pages' layouts'.
      add_all reqs pages = Inr (nodes, pages') \<and> pool_inv w pages' layouts'
      \<and> length nodes = length reqs
      \<and> mset (pool_calls 0 layouts') = mset nodes + mset (pool_calls 0 layouts)"
proof (induction reqs arbitrary: pages layouts)
  case Nil
  then show ?case
    by auto
next
  case (Cons r reqs)
  obtain sz T v where r: "r = (sz, T, v)"
    by (cases r)
  have sz: "w dvd sz" "2 * w \<le> sz" "sz < 4096"
    using Cons.prems(2) r by auto
  obtain node pages1 layouts1 where
    a: "add sz T v pages = Inr (node, pages1)" and
    inv1: "pool_inv w pages1 layouts1" and
    m1: "mset (pool_calls 0 layouts1) = add_mset (T, node) (mset (pool_calls 0 layouts))"
    using add_pool_inv [OF Cons.prems(1) w sz, of T v] by blast
  have rest: "\<forall>(sz, T, v)\<in>set reqs. w dvd sz \<and> 2 * w \<le> sz \<and> sz < 4096"
    using Cons.prems(2) by simp
  obtain nodes pages' layouts' where
    b: "add_all reqs pages1 = Inr (nodes, pages')" and
    inv': "pool_inv w pages' layouts'" and
    n: "length nodes = length reqs" and
    m': "mset (pool_calls 0 layouts') = mset nodes + mset (pool_calls 0 layouts1)"
    using Cons.IH [OF inv1 rest] by blast
  have "add_all (r # reqs) pages = Inr ((T, node) # nodes, pages')"
    using a b r by simp
  moreover have "mset (pool_calls 0 layouts') =
      mset ((T, node) # nodes) + mset (pool_calls 0 layouts)"
    using m1 m' by simp
  ultimately show ?case
    using inv' n by auto
qed


lemma slot_calls_pages:
  "a \<in> set (slot_calls i node slots) \<Longrightarrow> fst (snd a) = i \<and> node \<le> snd (snd a)"
proof (induction slots arbitrary: node)
  case Nil
  then show ?case
    by simp
next
  case (Cons s slots)
  obtain sz T where s: "s = (sz, T)"
    by (cases s)
  show ?case
  proof (cases "a = (T, (i, node))")
    case True
    then show ?thesis
      by simp
  next
    case False
    then have "a \<in> set (slot_calls i (node + sz) slots)"
      using Cons.prems s by simp
    then have "fst (snd a) = i \<and> node + sz \<le> snd (snd a)"
      by (rule Cons.IH)
    then show ?thesis
      by simp
  qed
qed

lemma distinct_slot_calls:
  "\<forall>s\<in>set slots. 0 < fst s \<Longrightarrow> distinct (map snd (slot_calls i node slots))"
proof (induction slots arbitrary: node)
  case Nil
  then show ?case
    by simp
next
  case (Cons s slots)
  obtain sz T where s: "s = (sz, T)"
    by (cases s)
  have "0 < sz"
    using Cons.prems s by simp
  then have "(i, node) \<notin> snd ` set (slot_calls i (node + sz) slots)"
    using slot_calls_pages [of _ i "node + sz" slots] by fastforce
  then show ?case
    using Cons s by simp
qed

lemma pool_calls_pages:
  "a \<in> set (pool_calls i layouts) \<Longrightarrow> i \<le> fst (snd a)"
proof (induction layouts arbitrary: i)
  case Nil
  then show ?case
    by simp
next
  case (Cons slots layouts)
  show ?case
  proof (cases "a \<in> set (slot_calls i 0 slots)")
    case True
    then show ?thesis
      using slot_calls_pages [of a i 0 slots] by simp
  next
    case False
    then have "a \<in> set (pool_calls (Suc i) layouts)"
      using Cons.prems by simp
    then have "Suc i \<le> fst (snd a)"
      by (rule Cons.IH)
    then show ?thesis
      by simp
  qed
qed

lemma laid_out_positive: "laid_out w page node slots \<Longrightarrow> s \<in> set slots \<Longrightarrow> 0 < fst s"
proof (induction slots arbitrary: node)
  case Nil
  then show ?case
    by simp
next
  case (Cons s' slots)
  obtain sz T where s': "s' = (sz, T)"
    by (cases s')
  have pos: "0 < sz" and rest: "laid_out w page (node + sz) slots"
    using Cons.prems(1) s' by (auto split: option.splits)
  show ?case
  proof (cases "s = s'")
    case True
    then show ?thesis
      using pos s' by simp
  next
    case False
    then have "s \<in> set slots"
      using Cons.prems(2) by simp
    with rest show ?thesis
      by (rule Cons.IH)
  qed
qed

lemma distinct_pool_calls:
  "list_all2 (page_inv w) pages layouts \<Longrightarrow> distinct (map snd (pool_calls i layouts))"
proof (induction pages layouts arbitrary: i rule: list_all2_induct)
  case Nil
  then show ?case
    by simp
next
  case (Cons page pages slots layouts)
  have "laid_out w page 0 slots"
    using Cons.hyps(1) by (simp add: page_inv_def)
  then have "\<forall>s\<in>set slots. 0 < fst s"
    using laid_out_positive by blast
  then have "distinct (map snd (slot_calls i 0 slots))"
    by (rule distinct_slot_calls)
  moreover have "snd ` set (slot_calls i 0 slots) \<inter> snd ` set (pool_calls (Suc i) layouts) = {}"
    using slot_calls_pages [of _ i 0 slots] pool_calls_pages [of _ "Suc i" layouts]
    by fastforce
  ultimately show ?case
    using Cons.IH by simp
qed

text \<open>
  The release invariant for slots smaller than a page: when every footprint is a
  multiple of \<open>w = sizeof(size_t)\<close>, holds at least the two header words and is below
  4096 bytes (as the footprints of the node structs are), \<open>clear()\<close> after any sequence of
  allocations returns, and its destructor calls are the allocated objects, each
  once: the same multiset, and no address twice. The order differs, since \<open>add\<close> puts a
  small object into the first page that still has room.
\<close>

theorem clear_calls_every_destructor_once:
  assumes "0 < w" and "w dvd 4096" and "4096 < (2::nat) ^ (8 * w)"
    and "\<forall>(sz, T, v)\<in>set reqs. w dvd sz \<and> 2 * w \<le> sz \<and> sz < 4096"
  shows "\<exists>nodes pages pages' calls.
      add_all reqs [] = Inr (nodes, pages)
      \<and> clear w pages = Inr (pages', calls)
      \<and> mset calls = mset nodes
      \<and> length calls = length reqs
      \<and> distinct (map snd calls)"
proof -
  have "pool_inv w [] []"
    by (simp add: pool_inv_def)
  then obtain nodes pages layouts where
    a: "add_all reqs [] = Inr (nodes, pages)" and
    inv: "pool_inv w pages layouts" and
    n: "length nodes = length reqs" and
    m: "mset (pool_calls 0 layouts) = mset nodes + mset (pool_calls 0 [])"
    using add_all_pool_inv [OF assms(1,2) _ assms(4)] by blast
  obtain pages' where c: "clear w pages = Inr (pages', pool_calls 0 layouts)"
    using clear_pages_pool_inv [of w pages layouts 0 "[]"] inv assms(3)
    by (auto simp: clear_def pool_inv_def)
  have d: "distinct (map snd (pool_calls 0 layouts))"
    using inv by (auto simp: pool_inv_def intro: distinct_pool_calls)
  have "length (pool_calls 0 layouts) = length nodes"
    using m by (metis add.right_neutral mset.simps(1) pool_calls.simps(1) size_mset)
  then show ?thesis
    using a c d m n by auto
qed

theorem clear_calls_every_destructor_once_witness:
  "\<exists>pages pages'.
      add_all [(40, 1::nat, ()), (4000, 2, ()), (64, 3, ()), (48, 4, ())] []
        = Inr ([(1, (0, 0)), (2, (0, 40)), (3, (1, 0)), (4, (0, 4040))], pages)
      \<and> clear 8 pages
        = Inr (pages', [(1, (0, 0)), (2, (0, 40)), (4, (0, 4040)), (3, (1, 0))])"
  using clear_calls_every_destructor_once
    [of 8 "[(40, 1::nat, ()), (4000, 2, ()), (64, 3, ()), (48, 4, ())]"]
  by (simp add: add_def page_ctor_def Let_def clear_def clear_loop.simps read_dtor_def
      read_size_def size_t_sub_def)

section \<open>Properties of the node taxonomy and the node tree\<close>

lemmas base_ctor_defs = node_ctor_def Expression_ctor_def Statement_ctor_def
  Declaration_ctor_def node.defs Expression.defs Statement.defs Declaration.defs

lemmas shape_ctor_defs = LValue_ctor_def Literal_ctor_def Unary_ctor_def Binary_ctor_def
  Intrinsic_ctor_def Conditional_ctor_def Assignment_ctor_def Sequence_ctor_def
  Call_ctor_def Constructor_ctor_def Swizzle_ctor_def FieldSelection_ctor_def
  InitializerList_ctor_def Compound_ctor_def DeclaratorList_ctor_def
  ExpressionStatement_ctor_def If_ctor_def Case_ctor_def Switch_ctor_def For_ctor_def
  While_ctor_def Return_ctor_def Jump_ctor_def Annotation_ctor_def Variable_ctor_def
  Struct_ctor_def Function_ctor_def Pass_ctor_def Technique_ctor_def

lemma object_id_new_object: "object_id (new_object loc0 T) = shape_tag T"
  by (cases T) (simp_all add: shape_ctor_defs base_ctor_defs)

lemma shape_of_new_object: "shape_of (new_object loc0 T) = T"
  by (cases T) simp_all

lemma object_id_set_location: "object_id (object_set_location l obj) = object_id obj"
  by (cases obj) simp_all

lemma object_location_set_location: "object_location (object_set_location l obj) = l"
  by (cases obj) simp_all

lemma shape_of_set_location: "shape_of (object_set_location l obj) = shape_of obj"
  by (cases obj) simp_all

lemma make_node_result:
  "\<exists>node tree'. make_node footprint loc0 T l tree = Inr (node, tree')
     \<and> deref (pool tree') node = Some (object_set_location l (new_object loc0 T))"
proof -
  obtain node pages' where
    a: "add (footprint T) T (new_object loc0 T) (pool tree) = Inr (node, pages')" and
    b: "fst node < length pages'" and
    c: "memory (pages' ! fst node) (snd node) =
          Some \<lparr>size_field = footprint T, dtor = T, data = new_object loc0 T\<rparr>"
    using add_deref [of "footprint T" T "new_object loc0 T" "pool tree"] by auto
  show ?thesis
    using a b c by (simp add: make_node_def assign_def deref_def)
qed

text \<open>
  Claim C4, as stated, fails for \<open>Annotation\<close>: the struct has a tag of its own,
  \<open>nodeid::Annotation\<close>, and derives from \<open>node\<close> directly, so an annotation converts to
  none of \<open>Expression\<close>, \<open>Statement\<close> and \<open>Declaration\<close>.
\<close>

theorem Annotation_in_no_family:
  "\<not> exactly_one (families (new_object (0::nat) shape.Annotation))
   \<and> shape_tag shape.Annotation = nodeid.Annotation"
  by (simp add: exactly_one_def families_def)

text \<open>
  Claim C4, amended: every concrete shape has a tag other than \<open>unknown\<close>, and every
  concrete shape except \<open>Annotation\<close> belongs to exactly one of the three families
  Expression, Statement and Declaration, whose base sub-object (with the result type,
  the attribute strings, or the name and namespace) the conversion yields.
  \<open>Annotation\<close> belongs to none of them.
\<close>

theorem families_partition_but_Annotation:
  "(exactly_one (families (new_object loc0 T)) \<longleftrightarrow> T \<noteq> shape.Annotation)
   \<and> families (new_object loc0 shape.Annotation) = [False, False, False]
   \<and> shape_tag T \<noteq> nodeid.unknown"
  by (cases T) (simp_all add: exactly_one_def families_def)

text \<open>
  Claim C5: \<open>make_node<T>(l)\<close> returns a pointer to an object of shape \<open>T\<close> whose tag is
  the tag of \<open>T\<close> and whose location is \<open>l\<close>. The tag is not an argument of
  \<open>make_node\<close>: the constructor of \<open>T\<close> sets it.
\<close>

theorem make_node_tag_and_location:
  "\<exists>node tree' obj.
      make_node footprint loc0 T l tree = Inr (node, tree')
      \<and> deref (pool tree') node = Some obj
      \<and> shape_of obj = T
      \<and> object_id obj = shape_tag T
      \<and> object_location obj = l"
  using make_node_result [of footprint loc0 T l tree]
  by (auto simp: object_id_new_object shape_of_new_object object_id_set_location
      object_location_set_location shape_of_set_location)

text \<open>
  Claim C9: the defaults of \<open>Pass::States\<close> and \<open>Variable::Properties\<close>, as the
  constructors set them and as a fresh \<open>Pass\<close> and \<open>Variable\<close> hold them: \<open>DepthFunc\<close> is
  \<open>LESS\<close> (2), \<open>BlendEnable\<close> is false, \<open>RenderTargetWriteMask\<close> is \<open>0xF\<close>, \<open>SrcBlend\<close> is
  \<open>ONE\<close> (1), \<open>DestBlend\<close> is \<open>ZERO\<close> (0); the three filters are \<open>LINEAR\<close> (2) and the
  three address modes \<open>CLAMP\<close> (3).
\<close>

theorem default_States_and_Properties:
  "DepthFunc States_ctor = LESS \<and> LESS = 2
   \<and> \<not> BlendEnable States_ctor
   \<and> RenderTargetWriteMask States_ctor = 0xF
   \<and> SrcBlend States_ctor = ONE \<and> ONE = 1
   \<and> DestBlend States_ctor = ZERO \<and> ZERO = 0
   \<and> MinFilter Properties_ctor = LINEAR
   \<and> MagFilter Properties_ctor = LINEAR
   \<and> MipFilter Properties_ctor = LINEAR
   \<and> LINEAR = 2
   \<and> AddressU Properties_ctor = CLAMP
   \<and> AddressV Properties_ctor = CLAMP
   \<and> AddressW Properties_ctor = CLAMP
   \<and> CLAMP = 3
   \<and> Pass.States (Pass_ctor loc0) = States_ctor
   \<and> Variable.Properties (Variable_ctor loc0) = Properties_ctor"
  by (simp add: States_ctor_def Properties_ctor_def LESS_def NEVER_def ONE_def ZERO_def
      LINEAR_def POINT_def CLAMP_def MIRROR_def REPEAT_def Pass_ctor_def Variable_ctor_def
      base_ctor_defs Pass.defs Variable.defs)



end
